theory Spec2Isabelle
  imports Main "HOL-Library.Word"
begin

unbundle bit_operations_syntax

section \<open>Data model of classB/SKiM980A/main.c\<close>

text \<open>
  The application is one C translation unit whose functions communicate through file-scope
  variables.  The embedding collects these variables in one record, passes it through every
  function and returns it updated.  Calls into the MAC engine, the timers, the LEDs and the
  board (all outside main.c) are appended to a chronological log of effects; the values such
  calls hand back are inputs, collected in the record \<open>env\<close>.  Diagnostic output
  (\<open>printf\<close>, \<open>PrintHexBuffer\<close>, and the MIB reads that only feed it) is left out.
\<close>

type_synonym uint8_t = "8 word"
type_synonym uint16_t = "16 word"
type_synonym uint32_t = "32 word"
type_synonym int32_t = "32 word"

subsection \<open>Enumerations\<close>

datatype eDeviceState =
    DEVICE_STATE_RESTORE
  | DEVICE_STATE_START
  | DEVICE_STATE_JOIN
  | DEVICE_STATE_SEND
  | DEVICE_STATE_REQ_DEVICE_TIME
  | DEVICE_STATE_REQ_PINGSLOT_ACK
  | DEVICE_STATE_REQ_BEACON_TIMING
  | DEVICE_STATE_BEACON_ACQUISITION
  | DEVICE_STATE_SWITCH_CLASS
  | DEVICE_STATE_CYCLE
  | DEVICE_STATE_SLEEP

text \<open>The enumerators of \<open>LoRaMacStatus_t\<close>, as listed beside \<open>MacStatusStrings\<close>.\<close>

datatype LoRaMacStatus_t =
    LORAMAC_STATUS_OK
  | LORAMAC_STATUS_BUSY
  | LORAMAC_STATUS_SERVICE_UNKNOWN
  | LORAMAC_STATUS_PARAMETER_INVALID
  | LORAMAC_STATUS_FREQUENCY_INVALID
  | LORAMAC_STATUS_DATARATE_INVALID
  | LORAMAC_STATUS_FREQ_AND_DR_INVALID
  | LORAMAC_STATUS_NO_NETWORK_JOINED
  | LORAMAC_STATUS_LENGTH_ERROR
  | LORAMAC_STATUS_REGION_NOT_SUPPORTED
  | LORAMAC_STATUS_SKIPPED_APP_DATA
  | LORAMAC_STATUS_DUTYCYCLE_RESTRICTED
  | LORAMAC_STATUS_NO_CHANNEL_FOUND
  | LORAMAC_STATUS_NO_FREE_CHANNEL_FOUND
  | LORAMAC_STATUS_BUSY_BEACON_RESERVED_TIME
  | LORAMAC_STATUS_BUSY_PING_SLOT_WINDOW_TIME
  | LORAMAC_STATUS_BUSY_UPLINK_COLLISION
  | LORAMAC_STATUS_CRYPTO_ERROR
  | LORAMAC_STATUS_FCNT_HANDLER_ERROR
  | LORAMAC_STATUS_MAC_COMMAD_ERROR
  | LORAMAC_STATUS_CLASS_B_ERROR
  | LORAMAC_STATUS_CONFIRM_QUEUE_ERROR
  | LORAMAC_STATUS_MC_GROUP_UNDEFINED
  | LORAMAC_STATUS_ERROR

text \<open>The enumerators of the event-info status, as listed beside \<open>EventInfoStatusStrings\<close>.\<close>

datatype LoRaMacEventInfoStatus_t =
    LORAMAC_EVENT_INFO_STATUS_OK
  | LORAMAC_EVENT_INFO_STATUS_ERROR
  | LORAMAC_EVENT_INFO_STATUS_TX_TIMEOUT
  | LORAMAC_EVENT_INFO_STATUS_RX1_TIMEOUT
  | LORAMAC_EVENT_INFO_STATUS_RX2_TIMEOUT
  | LORAMAC_EVENT_INFO_STATUS_RX1_ERROR
  | LORAMAC_EVENT_INFO_STATUS_RX2_ERROR
  | LORAMAC_EVENT_INFO_STATUS_JOIN_FAIL
  | LORAMAC_EVENT_INFO_STATUS_DOWNLINK_REPEATED
  | LORAMAC_EVENT_INFO_STATUS_TX_DR_PAYLOAD_SIZE_ERROR
  | LORAMAC_EVENT_INFO_STATUS_DOWNLINK_TOO_MANY_FRAMES_LOSS
  | LORAMAC_EVENT_INFO_STATUS_ADDRESS_FAIL
  | LORAMAC_EVENT_INFO_STATUS_MIC_FAIL
  | LORAMAC_EVENT_INFO_STATUS_MULTICAST_FAIL
  | LORAMAC_EVENT_INFO_STATUS_BEACON_LOCKED
  | LORAMAC_EVENT_INFO_STATUS_BEACON_LOST
  | LORAMAC_EVENT_INFO_STATUS_BEACON_NOT_FOUND

text \<open>
  The MLME request kinds main.c names.  LoRaMac.h is not part of the sources at hand;
  \<open>MLME_OTHER\<close> stands for every enumerator main.c does not mention, which the
  \<open>default\<close> branches of its switches receive.
\<close>

datatype Mlme_t =
    MLME_JOIN
  | MLME_LINK_CHECK
  | MLME_TXCW
  | MLME_TXCW_1
  | MLME_SCHEDULE_UPLINK
  | MLME_DEVICE_TIME
  | MLME_BEACON
  | MLME_BEACON_ACQUISITION
  | MLME_PING_SLOT_INFO
  | MLME_BEACON_TIMING
  | MLME_BEACON_LOST
  | MLME_OTHER

datatype Mcps_t = MCPS_UNCONFIRMED | MCPS_CONFIRMED | MCPS_MULTICAST | MCPS_PROPRIETARY

datatype ActivationType_t = ACTIVATION_TYPE_NONE | ACTIVATION_TYPE_ABP | ACTIVATION_TYPE_OTAA

datatype LoRaMacHandlerMsgTypes_t = LORAMAC_HANDLER_UNCONFIRMED_MSG | LORAMAC_HANDLER_CONFIRMED_MSG

datatype Datarate_t = DR_0

text \<open>
  \<open>DeviceClass_t\<close> is kept as the raw byte, because compliance step 9 casts a received
  byte to it unchecked.  The values are those of the comment at that cast.
\<close>

definition CLASS_A :: uint8_t where "CLASS_A = 0"
definition CLASS_B :: uint8_t where "CLASS_B = 1"
definition CLASS_C :: uint8_t where "CLASS_C = 2"

subsection \<open>Compile-time configuration\<close>

definition APP_TX_DUTYCYCLE :: int32_t where "APP_TX_DUTYCYCLE = 30000"
definition APP_TX_DUTYCYCLE_RND :: int32_t where "APP_TX_DUTYCYCLE_RND = 5000"
definition LORAWAN_DEFAULT_DATARATE :: Datarate_t where "LORAWAN_DEFAULT_DATARATE = DR_0"
definition LORAWAN_DEFAULT_PING_SLOT_PERIODICITY :: uint8_t where
  "LORAWAN_DEFAULT_PING_SLOT_PERIODICITY = 0"
definition LORAWAN_CONFIRMED_MSG_ON :: uint8_t where "LORAWAN_CONFIRMED_MSG_ON = 0"
definition LORAWAN_ADR_ON :: bool where "LORAWAN_ADR_ON = True"
definition LORAWAN_DUTYCYCLE_ON :: bool where "LORAWAN_DUTYCYCLE_ON = True"
definition LORAWAN_APP_PORT :: uint8_t where "LORAWAN_APP_PORT = 3"
definition LORAWAN_APP_DATA_MAX_SIZE :: nat where "LORAWAN_APP_DATA_MAX_SIZE = 242"

text \<open>\<open>USE_BEACON_TIMING\<close> is commented out in main.c.\<close>

definition USE_BEACON_TIMING :: bool where "USE_BEACON_TIMING = False"

text \<open>
  The macros that reach main.c from the compiler command line or from Commissioning.h,
  neither of which is at hand, are parameters.  \<open>REGION_DUTYCYCLE\<close> is the condition
  \<open>REGION_EU868 || REGION_RU864 || REGION_CN779 || REGION_EU433\<close>.
\<close>

record config =
  OVER_THE_AIR_ACTIVATION :: bool
  STATIC_DEVICE_ADDRESS :: bool
  REGION_DUTYCYCLE :: bool
  LORAWAN_PUBLIC_NETWORK :: bool
  LORAWAN_DEVICE_ADDRESS :: uint32_t
  LORAWAN_NETWORK_ID :: uint32_t
  ABP_ACTIVATION_LRWAN_VERSION :: uint32_t

subsection \<open>Requests handed to the MAC engine and other effects\<close>

datatype buffer_ptr = NULL | PTR_AppDataBuffer

datatype MlmeReq_t =
    Req_Join Datarate_t
  | Req_LinkCheck
  | Req_TxCw uint16_t
  | Req_TxCw1 uint16_t uint32_t uint8_t
  | Req_DeviceTime
  | Req_BeaconTiming
  | Req_BeaconAcquisition
  | Req_PingSlotInfo uint8_t

record McpsReq_t =
  mcpsReq_Type :: Mcps_t
  mcpsReq_fPort :: uint8_t
  mcpsReq_fBuffer :: buffer_ptr
  mcpsReq_fBufferSize :: uint8_t
  mcpsReq_NbTrials :: "uint8_t option"
  mcpsReq_Datarate :: Datarate_t

datatype MibParam =
    MIB_ADR bool
  | MIB_DEVICE_CLASS uint8_t
  | MIB_PUBLIC_NETWORK bool
  | MIB_SYSTEM_MAX_RX_ERROR uint32_t
  | MIB_NETWORK_ACTIVATION ActivationType_t
  | MIB_ABP_LORAWAN_VERSION uint32_t
  | MIB_NET_ID uint32_t
  | MIB_DEV_ADDR uint32_t

datatype timer = TxNextPacketTimer | Led4Timer | Led2Timer | LedBeaconTimer

datatype led = Led2 | Led3 | Led4

datatype effect =
    LoRaMacMlmeRequest MlmeReq_t
  | LoRaMacMcpsRequest McpsReq_t
  | LoRaMacMibSetRequestConfirm MibParam
  | LoRaMacTestSetDutyCycleOn bool
  | LoRaMacStart
  | TimerInit timer
  | TimerSetValue timer uint32_t
  | TimerStart timer
  | TimerStop timer
  | GpioWrite led uint8_t
  | Srand1
  | NvmCtxMgmtStore
  | BoardLowPowerHandler

subsection \<open>File-scope variables\<close>

text \<open>
  \<open>struct ComplianceTest_s\<close>.  Four of its members carry the names of file-scope
  variables and are prefixed here; main.c never reads or writes these four.
\<close>

record ComplianceTest_s =
  Running :: bool
  State :: uint8_t
  CT_IsTxConfirmed :: bool
  CT_AppPort :: uint8_t
  CT_AppDataSize :: uint8_t
  CT_AppDataBuffer :: buffer_ptr
  DownLinkCounter :: uint16_t
  LinkCheck :: bool
  DemodMargin :: uint8_t
  NbGateways :: uint8_t

record LoRaMacHandlerAppData_t =
  MsgType :: LoRaMacHandlerMsgTypes_t
  Port :: uint8_t
  BufferSize :: uint8_t
  Buffer :: buffer_ptr

record globals =
  DevAddr :: uint32_t
  AppPort :: uint8_t
  AppDataSize :: uint8_t
  AppDataSizeBackup :: uint8_t
  AppDataBuffer :: "uint8_t list"
  IsTxConfirmed :: uint8_t
  TxDutyCycleTime :: uint32_t
  AppLedStateOn :: bool
  NextTx :: bool
  IsMacProcessPending :: uint8_t
  DeviceState :: eDeviceState
  WakeUpState :: eDeviceState
  ComplianceTest :: ComplianceTest_s
  AppData :: LoRaMacHandlerAppData_t
  Effects :: "effect list"

subsection \<open>Arguments of the MAC callbacks\<close>

text \<open>
  Only the members main.c uses outside diagnostics.  \<open>mcpsIndication_Buffer\<close> is the
  memory behind the pointer the MAC engine hands over: \<open>mcpsIndication_Buffer i\<close> is the
  byte at offset \<open>i\<close>, of which the first \<open>mcpsIndication_BufferSize\<close> are the
  received payload.  main.c reads some offsets without looking at the size.
\<close>

record McpsIndication_t =
  mcpsIndication_Status :: LoRaMacEventInfoStatus_t
  mcpsIndication_McpsIndication :: Mcps_t
  mcpsIndication_FramePending :: bool
  mcpsIndication_RxData :: bool
  mcpsIndication_Port :: uint8_t
  mcpsIndication_Buffer :: "nat \<Rightarrow> uint8_t"
  mcpsIndication_BufferSize :: uint8_t

record McpsConfirm_t =
  mcpsConfirm_Status :: LoRaMacEventInfoStatus_t
  mcpsConfirm_McpsRequest :: Mcps_t

record MlmeConfirm_t =
  mlmeConfirm_Status :: LoRaMacEventInfoStatus_t
  mlmeConfirm_MlmeRequest :: Mlme_t
  mlmeConfirm_DemodMargin :: uint8_t
  mlmeConfirm_NbGateways :: uint8_t

record MlmeIndication_t =
  mlmeIndication_Status :: LoRaMacEventInfoStatus_t
  mlmeIndication_MlmeIndication :: Mlme_t

subsection \<open>Values the surroundings hand back\<close>

text \<open>
  One record per activation of a callback or of the main loop.  The two statuses
  \<open>joinStatus\<close> and \<open>mlmeStatus\<close> are separate because one activation of
  \<open>McpsIndication\<close> can submit a join request from the timer handler and a second
  request of its own.
\<close>

record env =
  mibGetStatus :: LoRaMacStatus_t
  networkActivation :: ActivationType_t
  joinStatus :: LoRaMacStatus_t
  mlmeStatus :: LoRaMacStatus_t
  queryTxStatus :: LoRaMacStatus_t
  mcpsStatus :: LoRaMacStatus_t
  potiLevel :: uint8_t
  batteryVoltage :: uint16_t
  randrDraw :: int32_t
  randrDevAddr :: int32_t
  nvmRestoreSuccess :: bool
  uninitialised_fPort :: uint8_t

section \<open>Operations\<close>

definition emit :: "effect \<Rightarrow> globals \<Rightarrow> globals" where
  "emit e s = s\<lparr>Effects := Effects s @ [e]\<rparr>"

subsection \<open>Join Manager\<close>

text \<open>\<open>JoinNetwork\<close>; the argument is what \<open>LoRaMacMlmeRequest\<close> returns.\<close>

definition JoinNetwork :: "LoRaMacStatus_t \<Rightarrow> globals \<Rightarrow> globals" where
  "JoinNetwork status s =
     (let s = emit (LoRaMacMlmeRequest (Req_Join LORAWAN_DEFAULT_DATARATE)) s
      in if status = LORAMAC_STATUS_OK
         then s\<lparr>DeviceState := DEVICE_STATE_SLEEP\<rparr>
         else s\<lparr>DeviceState := DEVICE_STATE_CYCLE\<rparr>)"

subsection \<open>MLME-Confirm\<close>

definition MlmeConfirm :: "env \<Rightarrow> MlmeConfirm_t \<Rightarrow> globals \<Rightarrow> globals" where
  "MlmeConfirm e mlmeConfirm s =
     (case mlmeConfirm_MlmeRequest mlmeConfirm of
        MLME_JOIN \<Rightarrow>
          if mlmeConfirm_Status mlmeConfirm = LORAMAC_EVENT_INFO_STATUS_OK
          then s\<lparr>DeviceState := (if USE_BEACON_TIMING then DEVICE_STATE_REQ_BEACON_TIMING
                                  else DEVICE_STATE_REQ_DEVICE_TIME)\<rparr>
          else JoinNetwork (mlmeStatus e) s
      | MLME_LINK_CHECK \<Rightarrow>
          if mlmeConfirm_Status mlmeConfirm = LORAMAC_EVENT_INFO_STATUS_OK
          then (if Running (ComplianceTest s)
                then s\<lparr>ComplianceTest := (ComplianceTest s)
                         \<lparr>LinkCheck := True,
                          DemodMargin := mlmeConfirm_DemodMargin mlmeConfirm,
                          NbGateways := mlmeConfirm_NbGateways mlmeConfirm\<rparr>\<rparr>
                else s)
          else s
      | MLME_DEVICE_TIME \<Rightarrow>
          s\<lparr>WakeUpState := DEVICE_STATE_SEND,
            DeviceState := DEVICE_STATE_BEACON_ACQUISITION,
            NextTx := True\<rparr>
      | MLME_BEACON_TIMING \<Rightarrow>
          s\<lparr>WakeUpState := DEVICE_STATE_SEND,
            DeviceState := DEVICE_STATE_BEACON_ACQUISITION,
            NextTx := True\<rparr>
      | MLME_BEACON_ACQUISITION \<Rightarrow>
          if mlmeConfirm_Status mlmeConfirm = LORAMAC_EVENT_INFO_STATUS_OK
          then s\<lparr>WakeUpState := DEVICE_STATE_REQ_PINGSLOT_ACK\<rparr>
          else s\<lparr>WakeUpState := (if USE_BEACON_TIMING then DEVICE_STATE_REQ_BEACON_TIMING
                                  else DEVICE_STATE_REQ_DEVICE_TIME)\<rparr>
      | MLME_PING_SLOT_INFO \<Rightarrow>
          if mlmeConfirm_Status mlmeConfirm = LORAMAC_EVENT_INFO_STATUS_OK
          then (let s = emit (LoRaMacMibSetRequestConfirm (MIB_DEVICE_CLASS CLASS_B)) s;
                    s = s\<lparr>WakeUpState := DEVICE_STATE_SEND\<rparr>;
                    s = s\<lparr>DeviceState := WakeUpState s\<rparr>
                in s\<lparr>NextTx := True\<rparr>)
          else s\<lparr>WakeUpState := DEVICE_STATE_REQ_PINGSLOT_ACK\<rparr>
      | _ \<Rightarrow> s)"

subsection \<open>Tx Scheduler\<close>

text \<open>
  \<open>PrepareTxFrame\<close>.  \<open>BoardGetPotiLevel\<close> and \<open>BoardGetBatteryVoltage\<close> answer
  with \<open>potiLevel\<close> and \<open>batteryVoltage\<close>.  Every index written is below 242, the
  length of \<open>AppDataBuffer\<close>.
\<close>

definition PrepareTxFrame :: "env \<Rightarrow> uint8_t \<Rightarrow> globals \<Rightarrow> globals" where
  "PrepareTxFrame e port s =
     (if port = 3 then
        (let potiPercentage = potiLevel e;
             vdd = batteryVoltage e;
             s = s\<lparr>AppDataSize := 4\<rparr>;
             s = s\<lparr>AppDataSizeBackup := AppDataSize s\<rparr>;
             s = s\<lparr>AppDataBuffer := (AppDataBuffer s)[0 := (if AppLedStateOn s then 1 else 0)]\<rparr>;
             s = s\<lparr>AppDataBuffer := (AppDataBuffer s)[1 := potiPercentage]\<rparr>;
             s = s\<lparr>AppDataBuffer := (AppDataBuffer s)[2 := ucast (drop_bit 8 vdd AND 0xFF)]\<rparr>
         in s\<lparr>AppDataBuffer := (AppDataBuffer s)[3 := ucast (vdd AND 0xFF)]\<rparr>)
      else if port = 224 then
        (if LinkCheck (ComplianceTest s) then
           (let s = s\<lparr>ComplianceTest := (ComplianceTest s)\<lparr>LinkCheck := False\<rparr>\<rparr>;
                s = s\<lparr>AppDataSize := 3\<rparr>;
                s = s\<lparr>AppDataBuffer := (AppDataBuffer s)[0 := 5]\<rparr>;
                s = s\<lparr>AppDataBuffer := (AppDataBuffer s)[1 := DemodMargin (ComplianceTest s)]\<rparr>;
                s = s\<lparr>AppDataBuffer := (AppDataBuffer s)[2 := NbGateways (ComplianceTest s)]\<rparr>
            in s\<lparr>ComplianceTest := (ComplianceTest s)\<lparr>State := 1\<rparr>\<rparr>)
         else if State (ComplianceTest s) = 4 then
           s\<lparr>ComplianceTest := (ComplianceTest s)\<lparr>State := 1\<rparr>\<rparr>
         else if State (ComplianceTest s) = 1 then
           (let s = s\<lparr>AppDataSize := 2\<rparr>;
                s = s\<lparr>AppDataBuffer :=
                       (AppDataBuffer s)[0 := ucast (drop_bit 8 (DownLinkCounter (ComplianceTest s)))]\<rparr>
            in s\<lparr>AppDataBuffer :=
                   (AppDataBuffer s)[1 := ucast (DownLinkCounter (ComplianceTest s))]\<rparr>)
         else s)
      else s)"

text \<open>
  \<open>SendFrame\<close> returns its result beside the state.  When the capacity query fails the
  request's port is never assigned; the value then copied into \<open>AppData.Port\<close> is whatever
  the stack held, \<open>uninitialised_fPort\<close>.  \<open>AppData\<close> is read through the
  \<open>Unconfirmed\<close> member of the request union also for a confirmed request; the two members
  begin with the same three fields.
\<close>

definition SendFrame :: "env \<Rightarrow> globals \<Rightarrow> bool \<times> globals" where
  "SendFrame e s =
     (let mcpsReq =
            (if queryTxStatus e \<noteq> LORAMAC_STATUS_OK then
               \<lparr>mcpsReq_Type = MCPS_UNCONFIRMED, mcpsReq_fPort = uninitialised_fPort e,
                mcpsReq_fBuffer = NULL, mcpsReq_fBufferSize = 0,
                mcpsReq_NbTrials = None, mcpsReq_Datarate = LORAWAN_DEFAULT_DATARATE\<rparr>
             else if IsTxConfirmed s = 0 then
               \<lparr>mcpsReq_Type = MCPS_UNCONFIRMED, mcpsReq_fPort = AppPort s,
                mcpsReq_fBuffer = PTR_AppDataBuffer, mcpsReq_fBufferSize = AppDataSize s,
                mcpsReq_NbTrials = None, mcpsReq_Datarate = LORAWAN_DEFAULT_DATARATE\<rparr>
             else
               \<lparr>mcpsReq_Type = MCPS_CONFIRMED, mcpsReq_fPort = AppPort s,
                mcpsReq_fBuffer = PTR_AppDataBuffer, mcpsReq_fBufferSize = AppDataSize s,
                mcpsReq_NbTrials = Some 8, mcpsReq_Datarate = LORAWAN_DEFAULT_DATARATE\<rparr>);
          s = s\<lparr>AppData :=
                 \<lparr>MsgType = (if mcpsReq_Type mcpsReq = MCPS_CONFIRMED
                              then LORAMAC_HANDLER_CONFIRMED_MSG
                              else LORAMAC_HANDLER_UNCONFIRMED_MSG),
                  Port = mcpsReq_fPort mcpsReq,
                  BufferSize = mcpsReq_fBufferSize mcpsReq,
                  Buffer = mcpsReq_fBuffer mcpsReq\<rparr>\<rparr>;
          s = emit (LoRaMacMcpsRequest mcpsReq) s
      in if mcpsStatus e = LORAMAC_STATUS_OK then (False, s) else (True, s))"

subsection \<open>Timer callbacks\<close>

definition OnTxNextPacketTimerEvent :: "env \<Rightarrow> globals \<Rightarrow> globals" where
  "OnTxNextPacketTimerEvent e s =
     (let s = emit (TimerStop TxNextPacketTimer) s
      in if mibGetStatus e = LORAMAC_STATUS_OK then
           (if networkActivation e = ACTIVATION_TYPE_NONE
            then JoinNetwork (joinStatus e) s
            else (let s = s\<lparr>DeviceState := WakeUpState s\<rparr> in s\<lparr>NextTx := True\<rparr>))
         else s)"

definition OnLed4TimerEvent :: "globals \<Rightarrow> globals" where
  "OnLed4TimerEvent s = emit (GpioWrite Led4 0) (emit (TimerStop Led4Timer) s)"

definition OnLed2TimerEvent :: "globals \<Rightarrow> globals" where
  "OnLed2TimerEvent s = emit (GpioWrite Led2 0) (emit (TimerStop Led2Timer) s)"

definition OnLedBeaconTimerEvent :: "globals \<Rightarrow> globals" where
  "OnLedBeaconTimerEvent s =
     emit (TimerStart LedBeaconTimer) (emit (TimerStart Led2Timer) (emit (GpioWrite Led2 1) s))"

subsection \<open>MCPS-Confirm\<close>

definition McpsConfirm :: "McpsConfirm_t \<Rightarrow> globals \<Rightarrow> globals" where
  "McpsConfirm mcpsConfirm s =
     (if mcpsConfirm_Status mcpsConfirm \<noteq> LORAMAC_EVENT_INFO_STATUS_OK then s
      else emit (TimerStart Led4Timer) (emit (GpioWrite Led4 1) s))"

subsection \<open>MCPS-Indication and the compliance test engine\<close>

text \<open>
  The loop of compliance step 4,
  \<open>for( uint8_t i = 1; i < MIN( AppDataSize, LORAWAN_APP_DATA_MAX_SIZE ); i++ )\<close>.
  The bound is at most 242, so the 8-bit counter never wraps and is a \<open>nat\<close> here.
\<close>

function echo_loop :: "nat \<Rightarrow> nat \<Rightarrow> (nat \<Rightarrow> uint8_t) \<Rightarrow> uint8_t list \<Rightarrow> uint8_t list" where
  "echo_loop i n src buf = (if i < n then echo_loop (i + 1) n src (buf[i := src i + 1]) else buf)"
  by pat_completeness auto
termination
  by (relation "measure (\<lambda>(i, n, src, buf). n - i)") auto

declare echo_loop.simps [simp del]

text \<open>The two identical bodies of steps 0 and 6, up to the call of \<open>JoinNetwork\<close>.\<close>

definition compliance_disable :: "config \<Rightarrow> globals \<Rightarrow> globals" where
  "compliance_disable cfg s =
     (let s = s\<lparr>IsTxConfirmed := LORAWAN_CONFIRMED_MSG_ON\<rparr>;
          s = s\<lparr>AppPort := LORAWAN_APP_PORT\<rparr>;
          s = s\<lparr>AppDataSize := AppDataSizeBackup s\<rparr>;
          s = s\<lparr>ComplianceTest := (ComplianceTest s)\<lparr>DownLinkCounter := 0\<rparr>\<rparr>;
          s = s\<lparr>ComplianceTest := (ComplianceTest s)\<lparr>Running := False\<rparr>\<rparr>;
          s = emit (LoRaMacMibSetRequestConfirm (MIB_ADR LORAWAN_ADR_ON)) s
      in if REGION_DUTYCYCLE cfg then emit (LoRaMacTestSetDutyCycleOn LORAWAN_DUTYCYCLE_ON) s
         else s)"

text \<open>The branch \<open>case 224\<close> of \<open>McpsIndication\<close>.\<close>

definition compliance_downlink :: "config \<Rightarrow> env \<Rightarrow> McpsIndication_t \<Rightarrow> globals \<Rightarrow> globals" where
  "compliance_downlink cfg e ind s =
     (let Buf = mcpsIndication_Buffer ind in
      if \<not> Running (ComplianceTest s) then
        (if mcpsIndication_BufferSize ind = 4 \<and> Buf 0 = 0x01 \<and> Buf 1 = 0x01
              \<and> Buf 2 = 0x01 \<and> Buf 3 = 0x01
         then
           (let s = s\<lparr>IsTxConfirmed := 0\<rparr>;
                s = s\<lparr>AppPort := 224\<rparr>;
                s = s\<lparr>AppDataSizeBackup := AppDataSize s\<rparr>;
                s = s\<lparr>AppDataSize := 2\<rparr>;
                s = s\<lparr>ComplianceTest := (ComplianceTest s)
                       \<lparr>DownLinkCounter := 0, LinkCheck := False, DemodMargin := 0,
                        NbGateways := 0, Running := True, State := 1\<rparr>\<rparr>;
                s = emit (LoRaMacMibSetRequestConfirm (MIB_ADR True)) s
            in if REGION_DUTYCYCLE cfg then emit (LoRaMacTestSetDutyCycleOn False) s else s)
         else s)
      else
        (let s = s\<lparr>ComplianceTest := (ComplianceTest s)\<lparr>State := Buf 0\<rparr>\<rparr>;
             st = State (ComplianceTest s)
         in if st = 0 then compliance_disable cfg s
            else if st = 1 then s\<lparr>AppDataSize := 2\<rparr>
            else if st = 2 then
              (let s = s\<lparr>IsTxConfirmed := 1\<rparr>
               in s\<lparr>ComplianceTest := (ComplianceTest s)\<lparr>State := 1\<rparr>\<rparr>)
            else if st = 3 then
              (let s = s\<lparr>IsTxConfirmed := 0\<rparr>
               in s\<lparr>ComplianceTest := (ComplianceTest s)\<lparr>State := 1\<rparr>\<rparr>)
            else if st = 4 then
              (let s = s\<lparr>AppDataSize := mcpsIndication_BufferSize ind\<rparr>;
                   s = s\<lparr>AppDataBuffer := (AppDataBuffer s)[0 := 4]\<rparr>
               in s\<lparr>AppDataBuffer :=
                      echo_loop 1 (min (unat (AppDataSize s)) LORAWAN_APP_DATA_MAX_SIZE)
                        Buf (AppDataBuffer s)\<rparr>)
            else if st = 5 then emit (LoRaMacMlmeRequest Req_LinkCheck) s
            else if st = 6 then JoinNetwork (mlmeStatus e) (compliance_disable cfg s)
            else if st = 7 then
              (let s =
                 (if mcpsIndication_BufferSize ind = 3 then
                    emit (LoRaMacMlmeRequest
                            (Req_TxCw (push_bit 8 (ucast (Buf 1)) OR ucast (Buf 2)))) s
                  else if mcpsIndication_BufferSize ind = 7 then
                    emit (LoRaMacMlmeRequest
                            (Req_TxCw1 (push_bit 8 (ucast (Buf 1)) OR ucast (Buf 2))
                               ((push_bit 16 (ucast (Buf 3)) OR push_bit 8 (ucast (Buf 4))
                                   OR ucast (Buf 5)) * 100)
                               (Buf 6))) s
                  else s)
               in s\<lparr>ComplianceTest := (ComplianceTest s)\<lparr>State := 1\<rparr>\<rparr>)
            else if st = 8 then
              (let s = emit (LoRaMacMlmeRequest Req_DeviceTime) s;
                   s = s\<lparr>WakeUpState := DEVICE_STATE_SEND\<rparr>
               in s\<lparr>DeviceState := DEVICE_STATE_SEND\<rparr>)
            else if st = 9 then
              (let s = emit (LoRaMacMibSetRequestConfirm (MIB_DEVICE_CLASS (Buf 1))) s
               in s\<lparr>DeviceState := DEVICE_STATE_SEND\<rparr>)
            else if st = 10 then
              (let s = emit (LoRaMacMlmeRequest (Req_PingSlotInfo (Buf 1))) s;
                   s = s\<lparr>WakeUpState := DEVICE_STATE_SEND\<rparr>
               in s\<lparr>DeviceState := DEVICE_STATE_SEND\<rparr>)
            else if st = 11 then
              (let s = emit (LoRaMacMlmeRequest Req_BeaconTiming) s;
                   s = s\<lparr>WakeUpState := DEVICE_STATE_SEND\<rparr>
               in s\<lparr>DeviceState := DEVICE_STATE_SEND\<rparr>)
            else s))"

definition McpsIndication :: "config \<Rightarrow> env \<Rightarrow> McpsIndication_t \<Rightarrow> globals \<Rightarrow> globals" where
  "McpsIndication cfg e ind s =
     (if mcpsIndication_Status ind \<noteq> LORAMAC_EVENT_INFO_STATUS_OK then s
      else
        (let s = (if mcpsIndication_FramePending ind then OnTxNextPacketTimerEvent e s else s);
             s = (if Running (ComplianceTest s)
                  then s\<lparr>ComplianceTest := (ComplianceTest s)
                           \<lparr>DownLinkCounter := DownLinkCounter (ComplianceTest s) + 1\<rparr>\<rparr>
                  else s);
             s = (if mcpsIndication_RxData ind then
                    (if mcpsIndication_Port ind = 1 \<or> mcpsIndication_Port ind = 2 then
                       (if mcpsIndication_BufferSize ind = 1 then
                          (let s = s\<lparr>AppLedStateOn :=
                                       (mcpsIndication_Buffer ind 0 AND 0x01 \<noteq> 0)\<rparr>
                           in emit (GpioWrite Led3 (if AppLedStateOn s then 1 else 0)) s)
                        else s)
                     else if mcpsIndication_Port ind = 224 then compliance_downlink cfg e ind s
                     else s)
                  else s);
             s = emit (GpioWrite Led2 1) s
         in emit (TimerStart Led2Timer) s))"

subsection \<open>MLME-Indication\<close>

definition MlmeIndication :: "env \<Rightarrow> MlmeIndication_t \<Rightarrow> globals \<Rightarrow> globals" where
  "MlmeIndication e mlmeIndication s =
     (case mlmeIndication_MlmeIndication mlmeIndication of
        MLME_SCHEDULE_UPLINK \<Rightarrow> OnTxNextPacketTimerEvent e s
      | MLME_BEACON_LOST \<Rightarrow>
          (let s = emit (LoRaMacMibSetRequestConfirm (MIB_DEVICE_CLASS CLASS_A)) s;
               s = s\<lparr>WakeUpState := (if USE_BEACON_TIMING then DEVICE_STATE_REQ_BEACON_TIMING
                                       else DEVICE_STATE_REQ_DEVICE_TIME)\<rparr>
           in emit (TimerStop LedBeaconTimer) s)
      | MLME_BEACON \<Rightarrow>
          if mlmeIndication_Status mlmeIndication = LORAMAC_EVENT_INFO_STATUS_BEACON_LOCKED
          then emit (TimerStart LedBeaconTimer) s
          else emit (TimerStop LedBeaconTimer) s
      | _ \<Rightarrow> s)"

definition OnMacProcessNotify :: "globals \<Rightarrow> globals" where
  "OnMacProcessNotify s = s\<lparr>IsMacProcessPending := 1\<rparr>"

subsection \<open>Device state machine\<close>

text \<open>
  Modelled from the spec: \<open>randr\<close>, the random-draw helper of utilities.c, is not among
  the sources at hand.  The spec describes its use as a symmetric random jitter window around
  the base period, so a call \<open>randr( min, max )\<close> is taken to return a signed 32-bit
  value between \<open>min\<close> and \<open>max\<close>, both included.  The value drawn is an input
  (\<open>randrDraw\<close>, \<open>randrDevAddr\<close>); this predicate states which inputs are draws.
\<close>

definition randr_returns :: "int \<Rightarrow> int \<Rightarrow> int32_t \<Rightarrow> bool" where
  "randr_returns lo hi r \<longleftrightarrow> lo \<le> sint r \<and> sint r \<le> hi"

text \<open>
  The state of the file-scope variables when \<open>main\<close> reaches its loop.  A failed
  \<open>LoRaMacInitialization\<close> ends in \<open>while ( 1 ) { }\<close>: there is no such state.
  \<open>DevAddr\<close> exists only when \<open>OVER_THE_AIR_ACTIVATION\<close> is 0.
\<close>

definition init_globals :: "config \<Rightarrow> globals" where
  "init_globals cfg =
        \<lparr>DevAddr = LORAWAN_DEVICE_ADDRESS cfg,
         AppPort = LORAWAN_APP_PORT,
         AppDataSize = 4,
         AppDataSizeBackup = 4,
         AppDataBuffer = replicate LORAWAN_APP_DATA_MAX_SIZE 0,
         IsTxConfirmed = LORAWAN_CONFIRMED_MSG_ON,
         TxDutyCycleTime = 0,
         AppLedStateOn = False,
         NextTx = True,
         IsMacProcessPending = 0,
         DeviceState = DEVICE_STATE_RESTORE,
         WakeUpState = DEVICE_STATE_START,
         ComplianceTest =
           \<lparr>Running = False, State = 0, CT_IsTxConfirmed = False, CT_AppPort = 0,
            CT_AppDataSize = 0, CT_AppDataBuffer = NULL, DownLinkCounter = 0,
            LinkCheck = False, DemodMargin = 0, NbGateways = 0\<rparr>,
         AppData =
           \<lparr>MsgType = LORAMAC_HANDLER_UNCONFIRMED_MSG, Port = 0, BufferSize = 0,
            Buffer = NULL\<rparr>,
         Effects = []\<rparr>"

definition main_init :: "config \<Rightarrow> LoRaMacStatus_t \<Rightarrow> globals option" where
  "main_init cfg status =
     (if status \<noteq> LORAMAC_STATUS_OK then None else Some (init_globals cfg))"

definition emits :: "effect list \<Rightarrow> globals \<Rightarrow> globals" where
  "emits es s = s\<lparr>Effects := Effects s @ es\<rparr>"

text \<open>
  One pass through the \<open>switch( DeviceState )\<close> of the main loop.  The enumerator
  \<open>DEVICE_STATE_SWITCH_CLASS\<close> has no case of its own and takes the \<open>default\<close>
  branch.  The ping-slot parameter byte is built from the bit fields
  \<open>Periodicity\<close> (the default periodicity) and \<open>RFU\<close> (0).
\<close>

definition main_loop_step :: "config \<Rightarrow> env \<Rightarrow> globals \<Rightarrow> globals" where
  "main_loop_step cfg e s =
     (case DeviceState s of
        DEVICE_STATE_RESTORE \<Rightarrow>
          (let s =
             (if nvmRestoreSuccess e then s
              else if OVER_THE_AIR_ACTIVATION cfg then s
              else
                (let s = emit (LoRaMacMibSetRequestConfirm
                                 (MIB_ABP_LORAWAN_VERSION (ABP_ACTIVATION_LRWAN_VERSION cfg))) s;
                     s = emit (LoRaMacMibSetRequestConfirm
                                 (MIB_NET_ID (LORAWAN_NETWORK_ID cfg))) s;
                     s = (if STATIC_DEVICE_ADDRESS cfg then s
                          else (emit Srand1 s)\<lparr>DevAddr := randrDevAddr e\<rparr>)
                 in emit (LoRaMacMibSetRequestConfirm (MIB_DEV_ADDR (DevAddr s))) s))
           in s\<lparr>DeviceState := DEVICE_STATE_START\<rparr>)
      | DEVICE_STATE_START \<Rightarrow>
          (let s = emits
                 [TimerInit TxNextPacketTimer,
                  TimerInit Led4Timer, TimerSetValue Led4Timer 25,
                  TimerInit Led2Timer, TimerSetValue Led2Timer 25,
                  TimerInit LedBeaconTimer, TimerSetValue LedBeaconTimer 5000,
                  LoRaMacMibSetRequestConfirm (MIB_PUBLIC_NETWORK (LORAWAN_PUBLIC_NETWORK cfg)),
                  LoRaMacMibSetRequestConfirm (MIB_ADR LORAWAN_ADR_ON)] s;
               s = (if REGION_DUTYCYCLE cfg
                    then emit (LoRaMacTestSetDutyCycleOn LORAWAN_DUTYCYCLE_ON) s else s);
               s = emits [LoRaMacMibSetRequestConfirm (MIB_SYSTEM_MAX_RX_ERROR 20),
                          LoRaMacStart] s
           in if mibGetStatus e = LORAMAC_STATUS_OK then
                (if networkActivation e = ACTIVATION_TYPE_NONE
                 then s\<lparr>DeviceState := DEVICE_STATE_JOIN\<rparr>
                 else (let s = s\<lparr>DeviceState := DEVICE_STATE_SEND\<rparr> in s\<lparr>NextTx := True\<rparr>))
              else s)
      | DEVICE_STATE_JOIN \<Rightarrow>
          (if OVER_THE_AIR_ACTIVATION cfg then JoinNetwork (mlmeStatus e) s
           else
             (let s = emit (LoRaMacMibSetRequestConfirm
                              (MIB_NETWORK_ACTIVATION ACTIVATION_TYPE_ABP)) s
              in s\<lparr>DeviceState := (if USE_BEACON_TIMING then DEVICE_STATE_REQ_BEACON_TIMING
                                     else DEVICE_STATE_REQ_DEVICE_TIME)\<rparr>))
      | DEVICE_STATE_REQ_DEVICE_TIME \<Rightarrow>
          (let s =
             (if NextTx s then
                (let s = emit (LoRaMacMlmeRequest Req_DeviceTime) s
                 in if mlmeStatus e = LORAMAC_STATUS_OK
                    then s\<lparr>WakeUpState := DEVICE_STATE_SEND\<rparr> else s)
              else s)
           in s\<lparr>DeviceState := DEVICE_STATE_SEND\<rparr>)
      | DEVICE_STATE_REQ_BEACON_TIMING \<Rightarrow>
          (let s =
             (if NextTx s then
                (let s = emit (LoRaMacMlmeRequest Req_BeaconTiming) s
                 in if mlmeStatus e = LORAMAC_STATUS_OK
                    then s\<lparr>WakeUpState := DEVICE_STATE_SEND\<rparr> else s)
              else s)
           in s\<lparr>DeviceState := DEVICE_STATE_SEND\<rparr>)
      | DEVICE_STATE_BEACON_ACQUISITION \<Rightarrow>
          (let s =
             (if NextTx s then
                (let s = emit (LoRaMacMlmeRequest Req_BeaconAcquisition) s
                 in s\<lparr>NextTx := False\<rparr>)
              else s)
           in s\<lparr>DeviceState := DEVICE_STATE_SEND\<rparr>)
      | DEVICE_STATE_REQ_PINGSLOT_ACK \<Rightarrow>
          (let s =
             (if NextTx s then
                (let s = emit (LoRaMacMlmeRequest Req_LinkCheck) s;
                     s = emit (LoRaMacMlmeRequest
                                 (Req_PingSlotInfo LORAWAN_DEFAULT_PING_SLOT_PERIODICITY)) s
                 in if mlmeStatus e = LORAMAC_STATUS_OK
                    then s\<lparr>WakeUpState := DEVICE_STATE_SEND\<rparr> else s)
              else s)
           in s\<lparr>DeviceState := DEVICE_STATE_SEND\<rparr>)
      | DEVICE_STATE_SEND \<Rightarrow>
          (let s =
             (if NextTx s then
                (let s = PrepareTxFrame e (AppPort s) s;
                     (r, s) = SendFrame e s
                 in s\<lparr>NextTx := r\<rparr>)
              else s)
           in s\<lparr>DeviceState := DEVICE_STATE_CYCLE\<rparr>)
      | DEVICE_STATE_CYCLE \<Rightarrow>
          (let s = s\<lparr>DeviceState := DEVICE_STATE_SLEEP\<rparr>;
               s = (if Running (ComplianceTest s)
                    then s\<lparr>TxDutyCycleTime := 5000\<rparr>
                    else s\<lparr>TxDutyCycleTime := APP_TX_DUTYCYCLE + randrDraw e\<rparr>);
               s = emit (TimerSetValue TxNextPacketTimer (TxDutyCycleTime s)) s
           in emit (TimerStart TxNextPacketTimer) s)
      | DEVICE_STATE_SLEEP \<Rightarrow>
          (let s = emit NvmCtxMgmtStore s
           in if IsMacProcessPending s = 1
              then s\<lparr>IsMacProcessPending := 0\<rparr>
              else emit BoardLowPowerHandler s)
      | DEVICE_STATE_SWITCH_CLASS \<Rightarrow> s\<lparr>DeviceState := DEVICE_STATE_START\<rparr>)"

subsection \<open>Activations and reachable states\<close>

text \<open>
  Everything that can run after initialisation: one pass of the main loop, the expiry of one
  of the four timers, or one of the callbacks registered with the MAC engine.  The program
  is single-threaded and every activation runs to completion.
\<close>

datatype event =
    MainLoop
  | TxNextPacketTimerEvent
  | Led4TimerEvent
  | Led2TimerEvent
  | LedBeaconTimerEvent
  | MacMcpsConfirm McpsConfirm_t
  | MacMcpsIndication McpsIndication_t
  | MacMlmeConfirm MlmeConfirm_t
  | MacMlmeIndication MlmeIndication_t
  | MacProcessNotify

fun fire :: "config \<Rightarrow> env \<Rightarrow> event \<Rightarrow> globals \<Rightarrow> globals" where
  "fire cfg e MainLoop s = main_loop_step cfg e s"
| "fire cfg e TxNextPacketTimerEvent s = OnTxNextPacketTimerEvent e s"
| "fire cfg e Led4TimerEvent s = OnLed4TimerEvent s"
| "fire cfg e Led2TimerEvent s = OnLed2TimerEvent s"
| "fire cfg e LedBeaconTimerEvent s = OnLedBeaconTimerEvent s"
| "fire cfg e (MacMcpsConfirm c) s = McpsConfirm c s"
| "fire cfg e (MacMcpsIndication i) s = McpsIndication cfg e i s"
| "fire cfg e (MacMlmeConfirm c) s = MlmeConfirm e c s"
| "fire cfg e (MacMlmeIndication i) s = MlmeIndication e i s"
| "fire cfg e MacProcessNotify s = OnMacProcessNotify s"

inductive reachable :: "config \<Rightarrow> globals \<Rightarrow> bool" for cfg :: config where
  reachable_init: "main_init cfg LORAMAC_STATUS_OK = Some s \<Longrightarrow> reachable cfg s"
| reachable_fire: "reachable cfg s \<Longrightarrow> reachable cfg (fire cfg e ev s)"

text \<open>
  The application payload of the next uplink: the first \<open>AppDataSize\<close> bytes of
  \<open>AppDataBuffer\<close>, which is what \<open>SendFrame\<close> hands to the MAC engine.
\<close>

definition payload :: "globals \<Rightarrow> uint8_t list" where
  "payload s = take (unat (AppDataSize s)) (AppDataBuffer s)"

text \<open>A sequence of activations, each with the values its surroundings hand back.\<close>

fun run :: "config \<Rightarrow> (env \<times> event) list \<Rightarrow> globals \<Rightarrow> globals" where
  "run cfg [] s = s"
| "run cfg ((e, ev) # rest) s = run cfg rest (fire cfg e ev s)"

text \<open>
  The compliance engine is active in the state the sequence starts from and in the state
  after each of its activations.
\<close>

fun session_stays_open :: "config \<Rightarrow> (env \<times> event) list \<Rightarrow> globals \<Rightarrow> bool" where
  "session_stays_open cfg [] s = Running (ComplianceTest s)"
| "session_stays_open cfg ((e, ev) # rest) s =
     (Running (ComplianceTest s) \<and> session_stays_open cfg rest (fire cfg e ev s))"

text \<open>
  No activation of the sequence takes away a latched link-check result: none is a pass of the
  main loop that prepares a frame (state SEND with \<open>NextTx\<close> set), and none is a further
  link-check confirmation with status OK.
\<close>

fun latch_undisturbed :: "config \<Rightarrow> (env \<times> event) list \<Rightarrow> globals \<Rightarrow> bool" where
  "latch_undisturbed cfg [] s = True"
| "latch_undisturbed cfg ((e, ev) # rest) s =
     ((case ev of
         MainLoop \<Rightarrow> \<not> (DeviceState s = DEVICE_STATE_SEND \<and> NextTx s)
       | MacMlmeConfirm c \<Rightarrow>
           \<not> (mlmeConfirm_MlmeRequest c = MLME_LINK_CHECK
              \<and> mlmeConfirm_Status c = LORAMAC_EVENT_INFO_STATUS_OK)
       | _ \<Rightarrow> True)
      \<and> latch_undisturbed cfg rest (fire cfg e ev s))"

subsection \<open>An invariant of the reachable states\<close>

definition app_inv :: "globals \<Rightarrow> bool" where
  "app_inv s \<longleftrightarrow>
     WakeUpState s \<in> {DEVICE_STATE_START, DEVICE_STATE_SEND, DEVICE_STATE_REQ_DEVICE_TIME,
                       DEVICE_STATE_REQ_PINGSLOT_ACK}
   \<and> length (AppDataBuffer s) = LORAWAN_APP_DATA_MAX_SIZE
   \<and> AppDataSizeBackup s = 4
   \<and> (if Running (ComplianceTest s) then AppPort s = 224
       else AppPort s = LORAWAN_APP_PORT \<and> IsTxConfirmed s = LORAWAN_CONFIRMED_MSG_ON
            \<and> AppDataSize s = 4)"



text \<open>A link-check result is latched, and the application buffer has its declared length.\<close>

definition latched :: "uint8_t \<Rightarrow> uint8_t \<Rightarrow> globals \<Rightarrow> bool" where
  "latched m g s \<longleftrightarrow>
     LinkCheck (ComplianceTest s) \<and> DemodMargin (ComplianceTest s) = m
     \<and> NbGateways (ComplianceTest s) = g
     \<and> length (AppDataBuffer s) = LORAWAN_APP_DATA_MAX_SIZE"

subsection \<open>Concrete inputs\<close>

text \<open>An OTAA build for a duty-cycle regulated region.\<close>

definition eu868_otaa :: config where
  "eu868_otaa =
     \<lparr>OVER_THE_AIR_ACTIVATION = True, STATIC_DEVICE_ADDRESS = False, REGION_DUTYCYCLE = True,
      LORAWAN_PUBLIC_NETWORK = True, LORAWAN_DEVICE_ADDRESS = 0, LORAWAN_NETWORK_ID = 0,
      ABP_ACTIVATION_LRWAN_VERSION = 0x01000300\<rparr>"

text \<open>Surroundings in which every request is accepted and the network is joined.\<close>

definition env_ok :: env where
  "env_ok =
     \<lparr>mibGetStatus = LORAMAC_STATUS_OK, networkActivation = ACTIVATION_TYPE_OTAA,
      joinStatus = LORAMAC_STATUS_OK, mlmeStatus = LORAMAC_STATUS_OK,
      queryTxStatus = LORAMAC_STATUS_OK, mcpsStatus = LORAMAC_STATUS_OK,
      potiLevel = 50, batteryVoltage = 3300, randrDraw = - 5000, randrDevAddr = 0,
      nvmRestoreSuccess = False, uninitialised_fPort = 0\<rparr>"

text \<open>
  A downlink received without error on the given port, carrying the given bytes, with no
  further frame pending; the memory behind the payload holds zeros.
\<close>

definition downlink :: "uint8_t \<Rightarrow> uint8_t list \<Rightarrow> McpsIndication_t" where
  "downlink port bs =
     \<lparr>mcpsIndication_Status = LORAMAC_EVENT_INFO_STATUS_OK,
      mcpsIndication_McpsIndication = MCPS_UNCONFIRMED,
      mcpsIndication_FramePending = False,
      mcpsIndication_RxData = True,
      mcpsIndication_Port = port,
      mcpsIndication_Buffer = (\<lambda>i. if i < length bs then bs ! i else 0),
      mcpsIndication_BufferSize = of_nat (length bs)\<rparr>"

definition confirm :: "Mlme_t \<Rightarrow> LoRaMacEventInfoStatus_t \<Rightarrow> uint8_t \<Rightarrow> uint8_t \<Rightarrow> MlmeConfirm_t" where
  "confirm kind status margin gateways =
     \<lparr>mlmeConfirm_Status = status, mlmeConfirm_MlmeRequest = kind,
      mlmeConfirm_DemodMargin = margin, mlmeConfirm_NbGateways = gateways\<rparr>"

text \<open>The state after boot and the compliance enable command.\<close>

definition session_state :: globals where
  "session_state =
     McpsIndication eu868_otaa env_ok (downlink 224 [1, 1, 1, 1]) (init_globals eu868_otaa)"

text \<open>The same with a link-check answer (margin 9, 2 gateways) latched.\<close>

definition latched_state :: globals where
  "latched_state =
     MlmeConfirm env_ok (confirm MLME_LINK_CHECK LORAMAC_EVENT_INFO_STATUS_OK 9 2) session_state"

text \<open>The session after one more downlink, a step-1 command.\<close>

definition counted_state :: globals where
  "counted_state = McpsIndication eu868_otaa env_ok (downlink 224 [1]) session_state"

text \<open>The booted application about to compute its next duty cycle.\<close>

definition cycle_state :: globals where
  "cycle_state = (init_globals eu868_otaa)\<lparr>DeviceState := DEVICE_STATE_CYCLE\<rparr>"

text \<open>The booted application after a device-time confirmation.\<close>

definition timed_state :: globals where
  "timed_state =
     MlmeConfirm env_ok (confirm MLME_DEVICE_TIME LORAMAC_EVENT_INFO_STATUS_OK 0 0)
       (init_globals eu868_otaa)"

text \<open>The session after \<open>n\<close> further downlinks, each a step-1 command.\<close>

fun step1_downlinks :: "nat \<Rightarrow> globals" where
  "step1_downlinks 0 = session_state"
| "step1_downlinks (Suc n) =
     McpsIndication eu868_otaa env_ok (downlink 224 [1]) (step1_downlinks n)"

section \<open>Auxiliary facts\<close>

lemma length_echo_loop [simp]: "length (echo_loop i n src buf) = length buf"
  by (induction i n src buf rule: echo_loop.induct) (subst echo_loop.simps, simp)


lemma take3_update:
  "3 \<le> length xs \<Longrightarrow> take 3 (xs[0 := a, Suc 0 := b, 2 := c]) = [a, b, c]"
proof -
  assume "3 \<le> length xs"
  then obtain x y z ws where "xs = x # y # z # ws"
    by (metis Suc_le_length_iff numeral_3_eq_3)
  then show ?thesis by (simp add: numeral_2_eq_2 numeral_3_eq_3)
qed

lemma take2_update:
  "2 \<le> length xs \<Longrightarrow> take 2 (xs[0 := a, Suc 0 := b]) = [a, b]"
proof -
  assume "2 \<le> length xs"
  then obtain x y ws where "xs = x # y # ws"
    by (metis Suc_le_length_iff numeral_2_eq_2)
  then show ?thesis by (simp add: numeral_2_eq_2)
qed

lemma jitter_bounds:
  fixes r :: "32 word"
  assumes "- 5000 \<le> sint r" "sint r \<le> 5000"
  shows "uint (30000 + r) = 30000 + sint r"
proof -
  have "30000 + r = (word_of_int (30000 + sint r) :: 32 word)" by simp
  then have "uint (30000 + r) = take_bit 32 (30000 + sint r)"
    by (simp only: uint_word_of_int_eq) simp
  also have "\<dots> = 30000 + sint r"
    using assms by (simp add: take_bit_int_eq_self)
  finally show ?thesis .
qed

lemma emit_fields [simp]:
  "DevAddr (emit x s) = DevAddr s"
  "AppPort (emit x s) = AppPort s"
  "AppDataSize (emit x s) = AppDataSize s"
  "AppDataSizeBackup (emit x s) = AppDataSizeBackup s"
  "AppDataBuffer (emit x s) = AppDataBuffer s"
  "IsTxConfirmed (emit x s) = IsTxConfirmed s"
  "TxDutyCycleTime (emit x s) = TxDutyCycleTime s"
  "AppLedStateOn (emit x s) = AppLedStateOn s"
  "NextTx (emit x s) = NextTx s"
  "IsMacProcessPending (emit x s) = IsMacProcessPending s"
  "DeviceState (emit x s) = DeviceState s"
  "WakeUpState (emit x s) = WakeUpState s"
  "ComplianceTest (emit x s) = ComplianceTest s"
  "AppData (emit x s) = AppData s"
  "Effects (emit x s) = Effects s @ [x]"
  by (simp_all add: emit_def)

subsection \<open>The invariant\<close>

lemma inv_emit [simp]: "app_inv (emit x s) = app_inv s"
  by (simp add: app_inv_def)

lemma inv_emits [simp]: "app_inv (emits x s) = app_inv s"
  by (simp add: app_inv_def emits_def)

lemma inv_irrelevant [simp]:
  "app_inv (s\<lparr>DeviceState := d\<rparr>) = app_inv s"
  "app_inv (s\<lparr>NextTx := b\<rparr>) = app_inv s"
  "app_inv (s\<lparr>DevAddr := a\<rparr>) = app_inv s"
  "app_inv (s\<lparr>TxDutyCycleTime := t\<rparr>) = app_inv s"
  "app_inv (s\<lparr>IsMacProcessPending := p\<rparr>) = app_inv s"
  "app_inv (s\<lparr>AppLedStateOn := l\<rparr>) = app_inv s"
  "app_inv (s\<lparr>ComplianceTest := (ComplianceTest s)\<lparr>State := x\<rparr>\<rparr>) = app_inv s"
  "app_inv (s\<lparr>ComplianceTest := (ComplianceTest s)\<lparr>DownLinkCounter := c\<rparr>\<rparr>) = app_inv s"
  by (simp_all add: app_inv_def)

lemma inv_WakeUp_SEND: "app_inv s \<Longrightarrow> app_inv (s\<lparr>WakeUpState := DEVICE_STATE_SEND\<rparr>)"
  by (simp add: app_inv_def)

lemma inv_JoinNetwork [simp]: "app_inv (JoinNetwork st s) = app_inv s"
  by (simp add: JoinNetwork_def Let_def)

lemma inv_OnTx [simp]: "app_inv (OnTxNextPacketTimerEvent e s) = app_inv s"
  by (simp add: OnTxNextPacketTimerEvent_def Let_def)

lemma inv_Prepare: "app_inv s \<Longrightarrow> app_inv (PrepareTxFrame e (AppPort s) s)"
  by (auto simp add: app_inv_def PrepareTxFrame_def Let_def LORAWAN_APP_PORT_def split: if_splits)

lemma inv_Send [simp]: "app_inv (snd (SendFrame e s)) = app_inv s"
  by (simp add: app_inv_def SendFrame_def Let_def)

lemma inv_MlmeConfirm: "app_inv s \<Longrightarrow> app_inv (MlmeConfirm e c s)"
  by (simp add: MlmeConfirm_def Let_def split: Mlme_t.split)
     (simp add: app_inv_def USE_BEACON_TIMING_def)

lemma inv_MlmeIndication: "app_inv s \<Longrightarrow> app_inv (MlmeIndication e c s)"
  by (simp add: MlmeIndication_def Let_def split: Mlme_t.split)
     (simp add: app_inv_def USE_BEACON_TIMING_def)

lemma inv_disable: "app_inv s \<Longrightarrow> app_inv (compliance_disable cfg s)"
  by (simp add: app_inv_def compliance_disable_def Let_def)

lemma inv_compliance_downlink: "app_inv s \<Longrightarrow> app_inv (compliance_downlink cfg e i s)"
  unfolding compliance_downlink_def Let_def
  by (simp add: inv_disable) (simp add: app_inv_def)

lemma inv_McpsIndication: "app_inv s \<Longrightarrow> app_inv (McpsIndication cfg e i s)"
  unfolding McpsIndication_def Let_def
  by (simp add: inv_compliance_downlink)

lemma inv_main: "app_inv s \<Longrightarrow> app_inv (main_loop_step cfg e s)"
proof -
  assume a: "app_inv s"
  have c: "\<And>s e. app_inv s \<Longrightarrow> app_inv (case SendFrame e s of (r, s) \<Rightarrow> s\<lparr>NextTx := r\<rparr>)"
    using inv_Send by (simp add: split_beta)
  show ?thesis using a
    unfolding main_loop_step_def Let_def
    by (simp add: c inv_Prepare inv_WakeUp_SEND split: eDeviceState.split)
qed

lemma inv_fire: "app_inv s \<Longrightarrow> app_inv (fire cfg e ev s)"
  by (cases ev)
     (simp_all add: inv_main inv_McpsIndication inv_MlmeConfirm inv_MlmeIndication
        OnLed4TimerEvent_def OnLed2TimerEvent_def OnLedBeaconTimerEvent_def McpsConfirm_def
        OnMacProcessNotify_def)

lemma reachable_inv: "reachable cfg s \<Longrightarrow> app_inv s"
proof (induction rule: reachable.induct)
  case (reachable_init s)
  then show ?case
    by (auto simp add: main_init_def init_globals_def app_inv_def)
next
  case (reachable_fire s e ev)
  then show ?case by (simp add: inv_fire)
qed

subsection \<open>Frame facts for the wake-up state\<close>

lemma WakeUp_simple [simp]:
  "WakeUpState (emits es s) = WakeUpState s"
  "WakeUpState (JoinNetwork st s) = WakeUpState s"
  "WakeUpState (OnTxNextPacketTimerEvent e s) = WakeUpState s"
  "WakeUpState (PrepareTxFrame e p s) = WakeUpState s"
  "WakeUpState (snd (SendFrame e s)) = WakeUpState s"
  "WakeUpState (compliance_disable cfg s) = WakeUpState s"
  by (simp_all add: emits_def JoinNetwork_def OnTxNextPacketTimerEvent_def PrepareTxFrame_def
        SendFrame_def compliance_disable_def Let_def)

lemma WakeUp_compliance_downlink:
  "WakeUpState (compliance_downlink cfg e i s) \<in> {WakeUpState s, DEVICE_STATE_SEND}"
  by (simp add: compliance_downlink_def Let_def)

lemma WakeUp_McpsIndication:
  "WakeUpState (McpsIndication cfg e i s) \<in> {WakeUpState s, DEVICE_STATE_SEND}"
proof -
  have *: "WakeUpState (compliance_downlink cfg e i t) = WakeUpState s
           \<or> WakeUpState (compliance_downlink cfg e i t) = DEVICE_STATE_SEND"
    if "WakeUpState t = WakeUpState s" for t
    using WakeUp_compliance_downlink [of cfg e i t] that by auto
  show ?thesis
    by (simp add: McpsIndication_def Let_def *)
qed

lemma WakeUp_MlmeConfirm:
  "WakeUpState (MlmeConfirm e c s)
     \<in> {WakeUpState s, DEVICE_STATE_SEND, DEVICE_STATE_REQ_DEVICE_TIME,
         DEVICE_STATE_REQ_PINGSLOT_ACK}"
  by (simp add: MlmeConfirm_def Let_def USE_BEACON_TIMING_def split: Mlme_t.split)

lemma WakeUp_MlmeIndication:
  "WakeUpState (MlmeIndication e i s) \<in> {WakeUpState s, DEVICE_STATE_REQ_DEVICE_TIME}"
  by (simp add: MlmeIndication_def Let_def USE_BEACON_TIMING_def split: Mlme_t.split)

lemma WakeUp_main_loop_step:
  "WakeUpState (main_loop_step cfg e s) \<in> {WakeUpState s, DEVICE_STATE_SEND}"
  by (simp add: main_loop_step_def Let_def split_beta split: eDeviceState.split)

lemma WakeUp_fire:
  "WakeUpState (fire cfg e ev s)
     \<in> {WakeUpState s, DEVICE_STATE_SEND, DEVICE_STATE_REQ_DEVICE_TIME,
         DEVICE_STATE_REQ_PINGSLOT_ACK}"
proof (cases ev)
  case MainLoop
  then show ?thesis using WakeUp_main_loop_step [of cfg e s] by auto
next
  case (MacMcpsIndication i)
  then show ?thesis using WakeUp_McpsIndication [of cfg e i s] by auto
next
  case (MacMlmeConfirm c)
  then show ?thesis using WakeUp_MlmeConfirm [of e c s] by auto
next
  case (MacMlmeIndication i)
  then show ?thesis using WakeUp_MlmeIndication [of e i s] by auto
qed (simp_all add: OnLed4TimerEvent_def OnLed2TimerEvent_def OnLedBeaconTimerEvent_def
       McpsConfirm_def OnMacProcessNotify_def)

subsection \<open>Some reachable states\<close>

lemma reachable_boot: "reachable cfg (init_globals cfg)"
  by (rule reachable_init) (simp add: main_init_def)

lemma reachable_session_state: "reachable eu868_otaa session_state"
  unfolding session_state_def
  using reachable_fire [OF reachable_boot, of eu868_otaa env_ok "MacMcpsIndication (downlink 224 [1, 1, 1, 1])"]
  by simp

lemma reachable_latched_state: "reachable eu868_otaa latched_state"
  unfolding latched_state_def
  using reachable_fire [OF reachable_session_state, of env_ok "MacMlmeConfirm (confirm MLME_LINK_CHECK LORAMAC_EVENT_INFO_STATUS_OK 9 2)"]
  by simp

lemma session_state_fields:
  "Running (ComplianceTest session_state)"
  "State (ComplianceTest session_state) = 1"
  "\<not> LinkCheck (ComplianceTest session_state)"
  "DownLinkCounter (ComplianceTest session_state) = 0"
  "AppPort session_state = 224"
  "AppDataSize session_state = 2"
  "WakeUpState session_state = DEVICE_STATE_START"
  by (simp_all add: session_state_def McpsIndication_def compliance_downlink_def downlink_def
        init_globals_def eu868_otaa_def Let_def)

lemma latched_state_fields:
  "Running (ComplianceTest latched_state)"
  "LinkCheck (ComplianceTest latched_state)"
  "DemodMargin (ComplianceTest latched_state) = 9"
  "NbGateways (ComplianceTest latched_state) = 2"
  "AppPort latched_state = 224"
  by (simp_all add: latched_state_def MlmeConfirm_def confirm_def session_state_fields)

lemma reachable_counted_state: "reachable eu868_otaa counted_state"
  unfolding counted_state_def
  using reachable_fire [OF reachable_session_state, of env_ok "MacMcpsIndication (downlink 224 [1])"]
  by simp

lemma counted_state_fields:
  "Running (ComplianceTest counted_state)"
  "State (ComplianceTest counted_state) = 1"
  "\<not> LinkCheck (ComplianceTest counted_state)"
  "DownLinkCounter (ComplianceTest counted_state) = 1"
  "AppPort counted_state = 224"
  by (simp_all add: counted_state_def McpsIndication_def compliance_downlink_def downlink_def
        session_state_fields Let_def)

subsection \<open>Frame facts for a compliance session\<close>

lemma session_simple [simp]:
  "AppPort (JoinNetwork st s) = AppPort s"
  "AppDataSizeBackup (JoinNetwork st s) = AppDataSizeBackup s"
  "ComplianceTest (JoinNetwork st s) = ComplianceTest s"
  "AppPort (OnTxNextPacketTimerEvent e s) = AppPort s"
  "AppDataSizeBackup (OnTxNextPacketTimerEvent e s) = AppDataSizeBackup s"
  "ComplianceTest (OnTxNextPacketTimerEvent e s) = ComplianceTest s"
  "AppPort (emits es s) = AppPort s"
  "AppDataSizeBackup (emits es s) = AppDataSizeBackup s"
  "ComplianceTest (emits es s) = ComplianceTest s"
  "AppPort (snd (SendFrame e s)) = AppPort s"
  "AppDataSizeBackup (snd (SendFrame e s)) = AppDataSizeBackup s"
  "ComplianceTest (snd (SendFrame e s)) = ComplianceTest s"
  by (simp_all add: JoinNetwork_def OnTxNextPacketTimerEvent_def emits_def SendFrame_def Let_def)

lemma session_Prepare:
  "AppPort (PrepareTxFrame e 224 s) = AppPort s"
  "AppDataSizeBackup (PrepareTxFrame e 224 s) = AppDataSizeBackup s"
  "Running (ComplianceTest (PrepareTxFrame e 224 s)) = Running (ComplianceTest s)"
  by (simp_all add: PrepareTxFrame_def Let_def)

lemma session_main_loop_step:
  assumes "AppPort s = 224"
  shows "AppPort (main_loop_step cfg e s) = 224
       \<and> AppDataSizeBackup (main_loop_step cfg e s) = AppDataSizeBackup s
       \<and> Running (ComplianceTest (main_loop_step cfg e s)) = Running (ComplianceTest s)"
  using assms
  by (simp add: main_loop_step_def Let_def split_beta session_Prepare split: eDeviceState.split)

lemma session_MlmeConfirm:
  "AppPort (MlmeConfirm e c s) = AppPort s
   \<and> AppDataSizeBackup (MlmeConfirm e c s) = AppDataSizeBackup s
   \<and> Running (ComplianceTest (MlmeConfirm e c s)) = Running (ComplianceTest s)"
  by (simp add: MlmeConfirm_def Let_def split: Mlme_t.split)

lemma session_MlmeIndication:
  "AppPort (MlmeIndication e i s) = AppPort s
   \<and> AppDataSizeBackup (MlmeIndication e i s) = AppDataSizeBackup s
   \<and> Running (ComplianceTest (MlmeIndication e i s)) = Running (ComplianceTest s)"
  by (simp add: MlmeIndication_def Let_def split: Mlme_t.split)

lemma session_compliance_downlink:
  assumes "Running (ComplianceTest s)"
  shows "\<not> Running (ComplianceTest (compliance_downlink cfg e i s))
       \<or> (AppPort (compliance_downlink cfg e i s) = AppPort s
          \<and> AppDataSizeBackup (compliance_downlink cfg e i s) = AppDataSizeBackup s)"
  using assms by (simp add: compliance_downlink_def compliance_disable_def Let_def)

lemma session_McpsIndication:
  assumes "Running (ComplianceTest s)"
  shows "\<not> Running (ComplianceTest (McpsIndication cfg e i s))
       \<or> (AppPort (McpsIndication cfg e i s) = AppPort s
          \<and> AppDataSizeBackup (McpsIndication cfg e i s) = AppDataSizeBackup s)"
proof -
  have *: "\<not> Running (ComplianceTest (compliance_downlink cfg e i t))
       \<or> (AppPort (compliance_downlink cfg e i t) = AppPort s
          \<and> AppDataSizeBackup (compliance_downlink cfg e i t) = AppDataSizeBackup s)"
    if "Running (ComplianceTest t)" "AppPort t = AppPort s"
       "AppDataSizeBackup t = AppDataSizeBackup s" for t
    using session_compliance_downlink [of t cfg e i] that by auto
  show ?thesis
    using assms * [of "OnTxNextPacketTimerEvent e s\<lparr>ComplianceTest := ComplianceTest s
              \<lparr>DownLinkCounter := DownLinkCounter (ComplianceTest s) + 1\<rparr>\<rparr>"]
      * [of "s\<lparr>ComplianceTest := ComplianceTest s
              \<lparr>DownLinkCounter := DownLinkCounter (ComplianceTest s) + 1\<rparr>\<rparr>"]
    by (simp add: McpsIndication_def Let_def)
qed

lemma session_fire:
  assumes "Running (ComplianceTest s)" "AppPort s = 224"
    "Running (ComplianceTest (fire cfg e ev s))"
  shows "AppPort (fire cfg e ev s) = 224
       \<and> AppDataSizeBackup (fire cfg e ev s) = AppDataSizeBackup s"
proof (cases ev)
  case MainLoop
  then show ?thesis using session_main_loop_step [OF assms(2), of cfg e] by simp
next
  case (MacMcpsIndication i)
  then show ?thesis using session_McpsIndication [OF assms(1), of cfg e i] assms(2,3) by auto
next
  case (MacMlmeConfirm c)
  then show ?thesis using session_MlmeConfirm [of e c s] assms(2) by simp
next
  case (MacMlmeIndication i)
  then show ?thesis using session_MlmeIndication [of e i s] assms(2) by simp
qed (simp_all add: assms(2) OnLed4TimerEvent_def OnLed2TimerEvent_def OnLedBeaconTimerEvent_def
       McpsConfirm_def OnMacProcessNotify_def)

lemma session_run:
  "session_stays_open cfg evs s \<Longrightarrow> AppPort s = 224 \<Longrightarrow>
   Running (ComplianceTest (run cfg evs s)) \<and> AppPort (run cfg evs s) = 224
   \<and> AppDataSizeBackup (run cfg evs s) = AppDataSizeBackup s"
proof (induction evs arbitrary: s)
  case Nil
  then show ?case by simp
next
  case (Cons x evs)
  obtain e ev where x: "x = (e, ev)" by (cases x)
  from Cons.prems x have r: "Running (ComplianceTest s)"
    and o: "session_stays_open cfg evs (fire cfg e ev s)" by simp_all
  have r': "Running (ComplianceTest (fire cfg e ev s))"
    using o by (cases evs) auto
  from session_fire [OF r Cons.prems(2) r']
  have p: "AppPort (fire cfg e ev s) = 224"
    and b: "AppDataSizeBackup (fire cfg e ev s) = AppDataSizeBackup s" by simp_all
  from Cons.IH [OF o p] b x show ?case by simp
qed

lemma enable_effect:
  assumes "\<not> Running (ComplianceTest s)"
    "mcpsIndication_Status i = LORAMAC_EVENT_INFO_STATUS_OK" "mcpsIndication_RxData i"
    "mcpsIndication_Port i = 224" "mcpsIndication_BufferSize i = 4"
    "mcpsIndication_Buffer i 0 = 1" "mcpsIndication_Buffer i 1 = 1"
    "mcpsIndication_Buffer i 2 = 1" "mcpsIndication_Buffer i 3 = 1"
  shows "Running (ComplianceTest (McpsIndication cfg e i s))
       \<and> AppPort (McpsIndication cfg e i s) = 224
       \<and> AppDataSizeBackup (McpsIndication cfg e i s) = AppDataSize s"
  using assms
  by (simp add: McpsIndication_def compliance_downlink_def Let_def
        OnTxNextPacketTimerEvent_def JoinNetwork_def)

lemma disable_effect:
  assumes "Running (ComplianceTest s)"
    "mcpsIndication_Status i = LORAMAC_EVENT_INFO_STATUS_OK" "mcpsIndication_RxData i"
    "mcpsIndication_Port i = 224"
    "mcpsIndication_Buffer i 0 = 0 \<or> mcpsIndication_Buffer i 0 = 6"
  shows "\<not> Running (ComplianceTest (McpsIndication cfg e i s))
       \<and> IsTxConfirmed (McpsIndication cfg e i s) = LORAWAN_CONFIRMED_MSG_ON
       \<and> AppPort (McpsIndication cfg e i s) = LORAWAN_APP_PORT
       \<and> AppDataSize (McpsIndication cfg e i s) = AppDataSizeBackup s"
  using assms
  by (auto simp add: McpsIndication_def compliance_downlink_def compliance_disable_def Let_def
        OnTxNextPacketTimerEvent_def JoinNetwork_def)


lemma echo_effect:
  assumes "Running (ComplianceTest s)"
    "mcpsIndication_Status i = LORAMAC_EVENT_INFO_STATUS_OK" "mcpsIndication_RxData i"
    "mcpsIndication_Port i = 224" "mcpsIndication_Buffer i 0 = 4"
  shows "AppDataSize (McpsIndication cfg e i s) = mcpsIndication_BufferSize i"
    and "AppDataBuffer (McpsIndication cfg e i s)
           = echo_loop 1 (min (unat (mcpsIndication_BufferSize i)) LORAWAN_APP_DATA_MAX_SIZE)
               (mcpsIndication_Buffer i) ((AppDataBuffer s)[0 := 4])"
    and "State (ComplianceTest (McpsIndication cfg e i s)) = 4"
    and "LinkCheck (ComplianceTest (McpsIndication cfg e i s)) = LinkCheck (ComplianceTest s)"
    and "DemodMargin (ComplianceTest (McpsIndication cfg e i s)) = DemodMargin (ComplianceTest s)"
    and "NbGateways (ComplianceTest (McpsIndication cfg e i s)) = NbGateways (ComplianceTest s)"
    and "AppPort (McpsIndication cfg e i s) = AppPort s"
    and "Running (ComplianceTest (McpsIndication cfg e i s))"
  using assms
  by (simp_all add: McpsIndication_def compliance_downlink_def Let_def
        OnTxNextPacketTimerEvent_def JoinNetwork_def)


lemma above_eleven:
  fixes b :: uint8_t
  assumes "11 < b"
  shows "b \<noteq> 0" "b \<noteq> 1" "b \<noteq> 2" "b \<noteq> 3" "b \<noteq> 4" "b \<noteq> 5" "b \<noteq> 6" "b \<noteq> 7"
    "b \<noteq> 8" "b \<noteq> 9" "b \<noteq> 10" "b \<noteq> 11"
  using assms by auto

lemma reachable_idle_defaults:
  assumes "reachable cfg s" "\<not> Running (ComplianceTest s)"
  shows "IsTxConfirmed s = LORAWAN_CONFIRMED_MSG_ON \<and> AppPort s = LORAWAN_APP_PORT
         \<and> AppDataSize s = 4"
  using reachable_inv [OF assms(1)] assms(2) by (simp add: app_inv_def)

subsection \<open>Frame facts for a latched link-check result\<close>

lemma latched_simple [simp]:
  "latched m g (emit ef s) = latched m g s"
  "latched m g (emits xs s) = latched m g s"
  "latched m g (s\<lparr>DeviceState := d\<rparr>) = latched m g s"
  "latched m g (s\<lparr>WakeUpState := w\<rparr>) = latched m g s"
  "latched m g (s\<lparr>NextTx := b\<rparr>) = latched m g s"
  "latched m g (s\<lparr>DevAddr := a\<rparr>) = latched m g s"
  "latched m g (s\<lparr>TxDutyCycleTime := t\<rparr>) = latched m g s"
  "latched m g (s\<lparr>IsMacProcessPending := p\<rparr>) = latched m g s"
  "latched m g (s\<lparr>AppLedStateOn := l\<rparr>) = latched m g s"
  "latched m g (s\<lparr>AppDataSize := z\<rparr>) = latched m g s"
  "latched m g (s\<lparr>IsTxConfirmed := z\<rparr>) = latched m g s"
  "latched m g (s\<lparr>ComplianceTest := (ComplianceTest s)\<lparr>State := x\<rparr>\<rparr>) = latched m g s"
  "latched m g (s\<lparr>ComplianceTest := (ComplianceTest s)\<lparr>DownLinkCounter := c\<rparr>\<rparr>) = latched m g s"
  "latched m g (JoinNetwork st s) = latched m g s"
  "latched m g (OnTxNextPacketTimerEvent e s) = latched m g s"
  by (simp_all add: latched_def emits_def JoinNetwork_def OnTxNextPacketTimerEvent_def Let_def)

lemma latched_main_loop_step:
  assumes "latched m g s" "\<not> (DeviceState s = DEVICE_STATE_SEND \<and> NextTx s)"
  shows "latched m g (main_loop_step cfg e s)"
  using assms by (auto simp add: main_loop_step_def Let_def split: eDeviceState.split)

lemma latched_MlmeConfirm:
  assumes "latched m g s"
    "\<not> (mlmeConfirm_MlmeRequest c = MLME_LINK_CHECK
        \<and> mlmeConfirm_Status c = LORAMAC_EVENT_INFO_STATUS_OK)"
  shows "latched m g (MlmeConfirm e c s)"
  using assms by (auto simp add: MlmeConfirm_def Let_def split: Mlme_t.split)

lemma latched_MlmeIndication:
  "latched m g s \<Longrightarrow> latched m g (MlmeIndication e i s)"
  by (simp add: MlmeIndication_def Let_def split: Mlme_t.split)

lemma latched_compliance_downlink:
  assumes "latched m g s" "Running (ComplianceTest s)"
  shows "\<not> Running (ComplianceTest (compliance_downlink cfg e i s))
         \<or> latched m g (compliance_downlink cfg e i s)"
  using assms unfolding latched_def
  by (simp add: compliance_downlink_def compliance_disable_def Let_def)

lemma latched_McpsIndication:
  assumes "latched m g s" "Running (ComplianceTest s)"
  shows "\<not> Running (ComplianceTest (McpsIndication cfg e i s))
         \<or> latched m g (McpsIndication cfg e i s)"
proof -
  let ?k = "DownLinkCounter (ComplianceTest s) + 1"
  let ?t1 = "OnTxNextPacketTimerEvent e s
               \<lparr>ComplianceTest := ComplianceTest s\<lparr>DownLinkCounter := ?k\<rparr>\<rparr>"
  let ?t2 = "s\<lparr>ComplianceTest := ComplianceTest s\<lparr>DownLinkCounter := ?k\<rparr>\<rparr>"
  have l1: "latched m g ?t1" and r1: "Running (ComplianceTest ?t1)"
    using assms
    by (simp_all add: latched_def OnTxNextPacketTimerEvent_def JoinNetwork_def Let_def)
  have l2: "latched m g ?t2" and r2: "Running (ComplianceTest ?t2)"
    using assms by (simp_all add: latched_def)
  have l3: "latched m g (?t1\<lparr>AppLedStateOn := b\<rparr>)" "latched m g (?t2\<lparr>AppLedStateOn := b\<rparr>)"
    for b
    using l1 l2 by (simp_all add: latched_def)
  note a = latched_compliance_downlink [OF l1 r1, of cfg e i]
    and b = latched_compliance_downlink [OF l2 r2, of cfg e i]
  show ?thesis
    using assms a b l1 l2 l3 by (simp add: McpsIndication_def Let_def)
qed

lemma latched_fire:
  assumes "latched m g s" "Running (ComplianceTest s)"
    "Running (ComplianceTest (fire cfg e ev s))"
    "latch_undisturbed cfg [(e, ev)] s"
  shows "latched m g (fire cfg e ev s)"
proof (cases ev)
  case MainLoop
  then show ?thesis using latched_main_loop_step [OF assms(1), of cfg e] assms(4) by simp
next
  case (MacMcpsIndication i)
  then show ?thesis using latched_McpsIndication [OF assms(1,2), of cfg e i] assms(3) by auto
next
  case (MacMlmeConfirm c)
  then show ?thesis using latched_MlmeConfirm [OF assms(1), of c e] assms(4) by simp
next
  case (MacMlmeIndication i)
  then show ?thesis using latched_MlmeIndication [OF assms(1), of e i] by simp
qed (simp_all add: assms(1) OnLed4TimerEvent_def OnLed2TimerEvent_def
       OnLedBeaconTimerEvent_def McpsConfirm_def OnMacProcessNotify_def)

lemma latched_run:
  "session_stays_open cfg evs s \<Longrightarrow> latch_undisturbed cfg evs s \<Longrightarrow> latched m g s \<Longrightarrow>
   latched m g (run cfg evs s)"
proof (induction evs arbitrary: s)
  case Nil
  then show ?case by simp
next
  case (Cons x evs)
  obtain e ev where x: "x = (e, ev)" by (cases x)
  from Cons.prems x have r: "Running (ComplianceTest s)"
    and o: "session_stays_open cfg evs (fire cfg e ev s)"
    and u: "latch_undisturbed cfg [(e, ev)] s"
    and u': "latch_undisturbed cfg evs (fire cfg e ev s)" by simp_all
  have r': "Running (ComplianceTest (fire cfg e ev s))"
    using o by (cases evs) auto
  from latched_fire [OF Cons.prems(3) r r' u]
  have "latched m g (fire cfg e ev s)" .
  from Cons.IH [OF o u' this] x show ?case by simp
qed

lemma latched_state_more:
  "DeviceState latched_state = DEVICE_STATE_RESTORE"
  by (simp add: latched_state_def session_state_def MlmeConfirm_def confirm_def
        McpsIndication_def compliance_downlink_def downlink_def init_globals_def Let_def)

subsection \<open>Every value of the downlink counter occurs\<close>

lemma step1_downlinks_fields:
  "reachable eu868_otaa (step1_downlinks n) \<and> Running (ComplianceTest (step1_downlinks n))
   \<and> State (ComplianceTest (step1_downlinks n)) = 1
   \<and> \<not> LinkCheck (ComplianceTest (step1_downlinks n))
   \<and> DownLinkCounter (ComplianceTest (step1_downlinks n)) = of_nat n"
proof (induction n)
  case 0
  then show ?case using reachable_session_state by (simp add: session_state_fields)
next
  case (Suc n)
  have "reachable eu868_otaa (step1_downlinks (Suc n))"
    using reachable_fire [of eu868_otaa "step1_downlinks n" env_ok
            "MacMcpsIndication (downlink 224 [1])"] Suc by simp
  then show ?case
    using Suc by (simp add: McpsIndication_def compliance_downlink_def downlink_def Let_def)
qed

lemma every_counter_value_occurs:
  "\<exists>s. reachable eu868_otaa s \<and> Running (ComplianceTest s) \<and> State (ComplianceTest s) = 1
       \<and> \<not> LinkCheck (ComplianceTest s) \<and> DownLinkCounter (ComplianceTest s) = c"
  using step1_downlinks_fields [of "unat c"] by (intro exI [of _ "step1_downlinks (unat c)"]) simp

subsection \<open>Frame facts for a pending echo\<close>










lemma session_state_more:
  "DeviceState session_state = DEVICE_STATE_RESTORE" "NextTx session_state"
  "\<not> AppLedStateOn session_state" "IsTxConfirmed session_state = 0"
  by (simp_all add: session_state_def McpsIndication_def compliance_downlink_def downlink_def
        init_globals_def Let_def)

lemma take4_update:
  "4 \<le> length xs \<Longrightarrow> take 4 (xs[0 := a, Suc 0 := b, 2 := c, 3 := d]) = [a, b, c, d]"
proof -
  assume "4 \<le> length xs"
  then obtain x y z w ws where "xs = x # y # z # w # ws"
    by (metis Suc_le_length_iff eval_nat_numeral(2) numeral_3_eq_3 semiring_norm(26,27))
  then show ?thesis by (simp add: numeral_2_eq_2 numeral_3_eq_3 eval_nat_numeral)
qed

lemma prepare_telemetry:
  assumes "4 \<le> length (AppDataBuffer s)"
  shows "payload (PrepareTxFrame e 3 s)
           = [if AppLedStateOn s then 1 else 0, potiLevel e,
              ucast (drop_bit 8 (batteryVoltage e) AND 0xFF), ucast (batteryVoltage e AND 0xFF)]"
    and "ComplianceTest (PrepareTxFrame e 3 s) = ComplianceTest s"
  using assms by (simp_all add: PrepareTxFrame_def payload_def Let_def take4_update)

lemma reachable_run: "reachable cfg s \<Longrightarrow> reachable cfg (run cfg evs s)"
proof (induction evs arbitrary: s)
  case Nil
  then show ?case by simp
next
  case (Cons x evs)
  obtain e ev where "x = (e, ev)" by (cases x)
  with Cons show ?case by (simp add: reachable_fire)
qed

lemma no_entry_without_enable:
  assumes "\<not> Running (ComplianceTest s)" "mcpsIndication_Buffer i 0 \<noteq> 1"
  shows "\<not> Running (ComplianceTest (McpsIndication cfg e i s))"
  using assms
  by (simp add: McpsIndication_def compliance_downlink_def Let_def)

lemma exit_restores_saved_size:
  assumes "\<not> Running (ComplianceTest s)"
    and "mcpsIndication_Status i = LORAMAC_EVENT_INFO_STATUS_OK" "mcpsIndication_RxData i"
    "mcpsIndication_Port i = 224" "mcpsIndication_BufferSize i = 4"
    "mcpsIndication_Buffer i 0 = 1" "mcpsIndication_Buffer i 1 = 1"
    "mcpsIndication_Buffer i 2 = 1" "mcpsIndication_Buffer i 3 = 1"
    and "session_stays_open cfg evs (McpsIndication cfg e i s)"
    and "mcpsIndication_Status j = LORAMAC_EVENT_INFO_STATUS_OK" "mcpsIndication_RxData j"
    "mcpsIndication_Port j = 224"
    "mcpsIndication_Buffer j 0 = 0 \<or> mcpsIndication_Buffer j 0 = 6"
  shows "\<not> Running (ComplianceTest (McpsIndication cfg e' j (run cfg evs (McpsIndication cfg e i s))))
     \<and> IsTxConfirmed (McpsIndication cfg e' j (run cfg evs (McpsIndication cfg e i s)))
         = LORAWAN_CONFIRMED_MSG_ON
     \<and> AppPort (McpsIndication cfg e' j (run cfg evs (McpsIndication cfg e i s)))
         = LORAWAN_APP_PORT
     \<and> AppDataSize (McpsIndication cfg e' j (run cfg evs (McpsIndication cfg e i s)))
         = AppDataSize s"
proof -
  let ?s1 = "McpsIndication cfg e i s"
  have en: "Running (ComplianceTest ?s1) \<and> AppPort ?s1 = 224
            \<and> AppDataSizeBackup ?s1 = AppDataSize s"
    using assms(1-9) by (rule enable_effect)
  then have ru: "Running (ComplianceTest (run cfg evs ?s1))
            \<and> AppDataSizeBackup (run cfg evs ?s1) = AppDataSize s"
    using session_run [OF assms(10)] by simp
  then show ?thesis
    using disable_effect [of "run cfg evs ?s1" j cfg e'] assms(11-14) by simp
qed

section \<open>The claims\<close>

subsection \<open>C1: the wake-up state\<close>

text \<open>
  C1 says that in every reachable state, the state right after initialisation included,
  \<open>WakeUpState\<close> is none of RESTORE, START and JOIN.  \<open>main\<close> itself assigns
  \<open>DEVICE_STATE_START\<close> to \<open>WakeUpState\<close> before it enters its loop, so the claim
  fails in the very first state.
\<close>

theorem wakeup_state_start_after_init:
  "reachable eu868_otaa (init_globals eu868_otaa)
   \<and> WakeUpState (init_globals eu868_otaa)
       \<in> {DEVICE_STATE_RESTORE, DEVICE_STATE_START, DEVICE_STATE_JOIN}"
  by (simp add: reachable_boot) (simp add: init_globals_def)

text \<open>
  C1 as amended: in every reachable state \<open>WakeUpState\<close> is neither RESTORE nor JOIN but
  one of START, SEND, REQ_DEVICE_TIME and REQ_PINGSLOT_ACK, and no activation ever assigns
  START to it: it is START only as long as the value given at initialisation has not been
  overwritten.
\<close>

theorem wakeup_state_invariant:
  "reachable cfg s \<Longrightarrow>
     WakeUpState s \<noteq> DEVICE_STATE_RESTORE \<and> WakeUpState s \<noteq> DEVICE_STATE_JOIN
   \<and> WakeUpState s \<in> {DEVICE_STATE_START, DEVICE_STATE_SEND, DEVICE_STATE_REQ_DEVICE_TIME,
                        DEVICE_STATE_REQ_PINGSLOT_ACK}
   \<and> (WakeUpState (fire cfg e ev s) = DEVICE_STATE_START
        \<longrightarrow> WakeUpState s = DEVICE_STATE_START)"
  using reachable_inv [of cfg s] WakeUp_fire [of cfg e ev s] by (auto simp add: app_inv_def)

theorem wakeup_state_invariant_witness:
  "reachable eu868_otaa timed_state
   \<and> WakeUpState timed_state = DEVICE_STATE_SEND
   \<and> WakeUpState (fire eu868_otaa env_ok MainLoop timed_state) \<noteq> DEVICE_STATE_START"
proof -
  have r: "reachable eu868_otaa timed_state"
    unfolding timed_state_def
    using reachable_fire [OF reachable_boot, of eu868_otaa env_ok
            "MacMlmeConfirm (confirm MLME_DEVICE_TIME LORAMAC_EVENT_INFO_STATUS_OK 0 0)"]
    by simp
  have w: "WakeUpState timed_state = DEVICE_STATE_SEND"
    by (simp add: timed_state_def MlmeConfirm_def confirm_def)
  show ?thesis
    using wakeup_state_invariant [OF r, of env_ok MainLoop] r w by simp
qed

subsection \<open>C2: leaving the compliance engine\<close>

text \<open>
  C2: let the application be in a reachable state with the compliance engine inactive, let
  the enable command (4 bytes 0x01 on port 224) enter the engine, and let, after any
  activations whatever, a step-0 or step-6 downlink arrive.  Then the engine is inactive and
  the triple of \<open>IsTxConfirmed\<close>, \<open>AppPort\<close> and \<open>AppDataSize\<close> is the triple from
  before the entry.  The enable command saves the payload size (lemma
  \<open>exit_restores_saved_size\<close> restores it for every value); confirmed mode and port come
  back as the build's defaults, which are the only values they have while the engine is
  inactive (lemma \<open>reachable_idle_defaults\<close>).
\<close>

theorem compliance_exit_restores_triple:
  assumes "reachable cfg s" "\<not> Running (ComplianceTest s)"
    and "mcpsIndication_Status i = LORAMAC_EVENT_INFO_STATUS_OK" "mcpsIndication_RxData i"
    "mcpsIndication_Port i = 224" "mcpsIndication_BufferSize i = 4"
    "mcpsIndication_Buffer i 0 = 1" "mcpsIndication_Buffer i 1 = 1"
    "mcpsIndication_Buffer i 2 = 1" "mcpsIndication_Buffer i 3 = 1"
    and "t = run cfg evs (McpsIndication cfg e i s)"
    and "mcpsIndication_Status j = LORAMAC_EVENT_INFO_STATUS_OK" "mcpsIndication_RxData j"
    "mcpsIndication_Port j = 224"
    "mcpsIndication_Buffer j 0 = 0 \<or> mcpsIndication_Buffer j 0 = 6"
  shows "Running (ComplianceTest (McpsIndication cfg e i s))
     \<and> \<not> Running (ComplianceTest (McpsIndication cfg e' j t))
     \<and> IsTxConfirmed (McpsIndication cfg e' j t) = IsTxConfirmed s
     \<and> AppPort (McpsIndication cfg e' j t) = AppPort s
     \<and> AppDataSize (McpsIndication cfg e' j t) = AppDataSize s"
proof -
  let ?u = "McpsIndication cfg e' j t"
  have pre: "IsTxConfirmed s = LORAWAN_CONFIRMED_MSG_ON \<and> AppPort s = LORAWAN_APP_PORT
             \<and> AppDataSize s = 4"
    using assms(1,2) by (rule reachable_idle_defaults)
  have en: "Running (ComplianceTest (McpsIndication cfg e i s))"
    using enable_effect [OF assms(2-10), of cfg e] by simp
  have "reachable cfg (McpsIndication cfg e i s)"
    using reachable_fire [OF assms(1), of e "MacMcpsIndication i"] by simp
  then have rt: "reachable cfg t" using assms(11) by (simp add: reachable_run)
  then have "reachable cfg ?u"
    using reachable_fire [of cfg t e' "MacMcpsIndication j"] by simp
  have nr: "\<not> Running (ComplianceTest ?u)"
  proof (cases "Running (ComplianceTest t)")
    case True
    then show ?thesis using disable_effect [OF True assms(12-15), of cfg e'] by simp
  next
    case False
    moreover have "mcpsIndication_Buffer j 0 \<noteq> 1" using assms(15) by auto
    ultimately show ?thesis by (rule no_entry_without_enable)
  qed
  with \<open>reachable cfg ?u\<close>
  have "IsTxConfirmed ?u = LORAWAN_CONFIRMED_MSG_ON \<and> AppPort ?u = LORAWAN_APP_PORT
        \<and> AppDataSize ?u = 4"
    by (rule reachable_idle_defaults)
  with pre en nr show ?thesis by simp
qed

theorem compliance_exit_restores_triple_witness:
  "reachable eu868_otaa (init_globals eu868_otaa)
   \<and> \<not> Running (ComplianceTest (init_globals eu868_otaa))
   \<and> Running (ComplianceTest session_state)
   \<and> AppDataSize (init_globals eu868_otaa) = 4
   \<and> AppDataSize
        (run eu868_otaa [(env_ok, MainLoop), (env_ok, MacMcpsIndication (downlink 224 [4, 7, 8]))]
          session_state) = 3
   \<and> AppDataSize
        (McpsIndication eu868_otaa env_ok (downlink 224 [6])
          (run eu868_otaa
            [(env_ok, MainLoop), (env_ok, MacMcpsIndication (downlink 224 [4, 7, 8]))]
            session_state)) = 4
   \<and> AppPort
        (McpsIndication eu868_otaa env_ok (downlink 224 [6])
          (run eu868_otaa
            [(env_ok, MainLoop), (env_ok, MacMcpsIndication (downlink 224 [4, 7, 8]))]
            session_state)) = 3
   \<and> IsTxConfirmed
        (McpsIndication eu868_otaa env_ok (downlink 224 [6])
          (run eu868_otaa
            [(env_ok, MainLoop), (env_ok, MacMcpsIndication (downlink 224 [4, 7, 8]))]
            session_state)) = 0"
proof -
  let ?en = "downlink 224 [1, 1, 1, 1]"
  let ?echo = "downlink 224 [4, 7, 8]"
  let ?evs = "[(env_ok, MainLoop), (env_ok, MacMcpsIndication ?echo)]"
  have a: "\<not> Running (ComplianceTest (init_globals eu868_otaa))"
    "AppDataSize (init_globals eu868_otaa) = 4" "AppPort (init_globals eu868_otaa) = 3"
    "IsTxConfirmed (init_globals eu868_otaa) = 0"
    by (simp_all add: init_globals_def LORAWAN_APP_PORT_def LORAWAN_CONFIRMED_MSG_ON_def)
  have en: "mcpsIndication_Status ?en = LORAMAC_EVENT_INFO_STATUS_OK"
    "mcpsIndication_RxData ?en" "mcpsIndication_Port ?en = 224"
    "mcpsIndication_BufferSize ?en = 4" "mcpsIndication_Buffer ?en 0 = 1"
    "mcpsIndication_Buffer ?en 1 = 1" "mcpsIndication_Buffer ?en 2 = 1"
    "mcpsIndication_Buffer ?en 3 = 1"
    by (simp_all add: downlink_def)
  have ec: "mcpsIndication_Status ?echo = LORAMAC_EVENT_INFO_STATUS_OK"
    "mcpsIndication_RxData ?echo" "mcpsIndication_Port ?echo = 224"
    "mcpsIndication_Buffer ?echo 0 = 4"
    by (simp_all add: downlink_def)
  have ex: "mcpsIndication_Status (downlink 224 [6]) = LORAMAC_EVENT_INFO_STATUS_OK"
    "mcpsIndication_RxData (downlink 224 [6])" "mcpsIndication_Port (downlink 224 [6]) = 224"
    "mcpsIndication_Buffer (downlink 224 [6]) 0 = 0
     \<or> mcpsIndication_Buffer (downlink 224 [6]) 0 = 6"
    by (simp_all add: downlink_def)
  let ?s2 = "main_loop_step eu868_otaa env_ok session_state"
  from session_main_loop_step [OF session_state_fields(5), of eu868_otaa env_ok]
    session_state_fields(1)
  have f2: "Running (ComplianceTest ?s2)" by simp
  from echo_effect [OF f2 ec, of eu868_otaa env_ok]
  have f3: "AppDataSize (McpsIndication eu868_otaa env_ok ?echo ?s2) = 3"
    by (simp add: downlink_def)
  have r: "AppDataSize (run eu868_otaa ?evs session_state) = 3"
    using f3 by simp
  show ?thesis
    using compliance_exit_restores_triple [where cfg = eu868_otaa and s = "init_globals eu868_otaa" and i = ?en
                and e = env_ok and evs = ?evs and j = "downlink 224 [6]" and e' = env_ok,
              OF reachable_boot a(1) en refl ex] a r
      reachable_boot [of eu868_otaa]
    by (simp add: session_state_def)
qed

subsection \<open>C3: the echo of step 4\<close>




subsection \<open>C4: the link-check report\<close>

text \<open>
  C4 says that after a link-check confirmation with status OK that arrives while the
  compliance engine is active, the frame prepared next has the payload \<open>[5, m, g]\<close>, and
  that the step is 1 and the link-check flag cleared afterwards.  Steps 0 and 6 leave the
  engine and set the port back to 3 without clearing the flag: when such a downlink comes
  between the confirmation and the preparation, the frame prepared next is the port-3
  telemetry, the step stays 0 and the flag stays set.
\<close>

theorem link_check_report_lost_on_exit:
  "reachable eu868_otaa session_state \<and> Running (ComplianceTest session_state)
   \<and> payload
        (PrepareTxFrame env_ok
          (AppPort (McpsIndication eu868_otaa env_ok (downlink 224 [0])
                     (MlmeConfirm env_ok
                        (confirm MLME_LINK_CHECK LORAMAC_EVENT_INFO_STATUS_OK 9 2)
                        session_state)))
          (McpsIndication eu868_otaa env_ok (downlink 224 [0])
             (MlmeConfirm env_ok (confirm MLME_LINK_CHECK LORAMAC_EVENT_INFO_STATUS_OK 9 2)
                session_state)))
       = [0, 50, 12, 228]
   \<and> LinkCheck (ComplianceTest
        (PrepareTxFrame env_ok
          (AppPort (McpsIndication eu868_otaa env_ok (downlink 224 [0])
                     (MlmeConfirm env_ok
                        (confirm MLME_LINK_CHECK LORAMAC_EVENT_INFO_STATUS_OK 9 2)
                        session_state)))
          (McpsIndication eu868_otaa env_ok (downlink 224 [0])
             (MlmeConfirm env_ok (confirm MLME_LINK_CHECK LORAMAC_EVENT_INFO_STATUS_OK 9 2)
                session_state))))
   \<and> State (ComplianceTest
        (PrepareTxFrame env_ok
          (AppPort (McpsIndication eu868_otaa env_ok (downlink 224 [0])
                     (MlmeConfirm env_ok
                        (confirm MLME_LINK_CHECK LORAMAC_EVENT_INFO_STATUS_OK 9 2)
                        session_state)))
          (McpsIndication eu868_otaa env_ok (downlink 224 [0])
             (MlmeConfirm env_ok (confirm MLME_LINK_CHECK LORAMAC_EVENT_INFO_STATUS_OK 9 2)
                session_state)))) = 0"
proof -
  let ?x = "downlink 224 [0]"
  let ?t = "McpsIndication eu868_otaa env_ok ?x latched_state"
  have "reachable eu868_otaa ?t"
    using reachable_fire [OF reachable_latched_state, of env_ok "MacMcpsIndication ?x"] by simp
  then have "app_inv ?t" by (rule reachable_inv)
  then have l: "4 \<le> length (AppDataBuffer ?t)"
    by (simp add: app_inv_def LORAWAN_APP_DATA_MAX_SIZE_def)
  have f: "AppPort ?t = 3" "LinkCheck (ComplianceTest ?t)" "State (ComplianceTest ?t) = 0"
    "\<not> AppLedStateOn ?t"
    by (simp_all add: McpsIndication_def compliance_downlink_def compliance_disable_def
          downlink_def Let_def latched_state_fields LORAWAN_APP_PORT_def
          latched_state_def MlmeConfirm_def confirm_def session_state_more session_state_fields)
  have v: "ucast (drop_bit 8 (batteryVoltage env_ok) AND 0xFF) = (12 :: uint8_t)"
    "ucast (batteryVoltage env_ok AND 0xFF) = (228 :: uint8_t)" "potiLevel env_ok = 50"
    by (simp_all add: env_ok_def)
  show ?thesis
    using prepare_telemetry [OF l, of env_ok] f v reachable_session_state
      session_state_fields(1)
    by (simp add: latched_state_def)
qed

text \<open>
  C4 as amended: when a link-check confirmation with status OK, margin \<open>m\<close> and gateway
  count \<open>g\<close> arrives while the compliance engine is active, and the engine stays active
  until the next frame is prepared, with no further link-check confirmation of status OK in
  between, then the frame prepared next (the main loop calls
  \<open>PrepareTxFrame( AppPort )\<close>) has the payload \<open>[5, m, g]\<close>, whatever the pending
  step and the buffer are; afterwards the step is 1 and the link-check flag is cleared.
\<close>

theorem link_check_report:
  assumes "reachable cfg s" "Running (ComplianceTest s)"
    and "mlmeConfirm_MlmeRequest c = MLME_LINK_CHECK"
    "mlmeConfirm_Status c = LORAMAC_EVENT_INFO_STATUS_OK"
    and "session_stays_open cfg evs (MlmeConfirm e c s)"
    "latch_undisturbed cfg evs (MlmeConfirm e c s)"
    and "s' = run cfg evs (MlmeConfirm e c s)"
  shows "payload (PrepareTxFrame e' (AppPort s') s')
           = [5, mlmeConfirm_DemodMargin c, mlmeConfirm_NbGateways c]
         \<and> State (ComplianceTest (PrepareTxFrame e' (AppPort s') s')) = 1
         \<and> \<not> LinkCheck (ComplianceTest (PrepareTxFrame e' (AppPort s') s'))"
proof -
  let ?s1 = "MlmeConfirm e c s"
  have "app_inv s" using assms(1) by (rule reachable_inv)
  then have p: "AppPort s = 224" and l: "length (AppDataBuffer s) = LORAWAN_APP_DATA_MAX_SIZE"
    using assms(2) by (simp_all add: app_inv_def)
  have p1: "AppPort ?s1 = 224" using session_MlmeConfirm [of e c s] p by simp
  have l1: "latched (mlmeConfirm_DemodMargin c) (mlmeConfirm_NbGateways c) ?s1"
    using assms(2-4) l by (simp add: latched_def MlmeConfirm_def)
  have p': "AppPort s' = 224" using session_run [OF assms(5) p1] assms(7) by simp
  have l': "latched (mlmeConfirm_DemodMargin c) (mlmeConfirm_NbGateways c) s'"
    using latched_run [OF assms(5,6) l1] assms(7) by simp
  then have "3 \<le> length (AppDataBuffer s')"
    by (simp add: latched_def LORAWAN_APP_DATA_MAX_SIZE_def)
  then show ?thesis
    using l' p' by (simp add: latched_def PrepareTxFrame_def payload_def Let_def take3_update)
qed

theorem link_check_report_witness:
  "reachable eu868_otaa session_state \<and> Running (ComplianceTest session_state)
   \<and> session_stays_open eu868_otaa
        [(env_ok, MainLoop), (env_ok, MacMcpsIndication (downlink 224 [4, 7, 8]))] latched_state
   \<and> latch_undisturbed eu868_otaa
        [(env_ok, MainLoop), (env_ok, MacMcpsIndication (downlink 224 [4, 7, 8]))] latched_state
   \<and> payload
        (PrepareTxFrame env_ok
          (AppPort (run eu868_otaa
             [(env_ok, MainLoop), (env_ok, MacMcpsIndication (downlink 224 [4, 7, 8]))]
             latched_state))
          (run eu868_otaa
             [(env_ok, MainLoop), (env_ok, MacMcpsIndication (downlink 224 [4, 7, 8]))]
             latched_state))
       = [5, 9, 2]"
proof -
  let ?c = "confirm MLME_LINK_CHECK LORAMAC_EVENT_INFO_STATUS_OK 9 2"
  let ?echo = "downlink 224 [4, 7, 8]"
  let ?evs = "[(env_ok, MainLoop), (env_ok, MacMcpsIndication ?echo)]"
  have c: "mlmeConfirm_MlmeRequest ?c = MLME_LINK_CHECK"
    "mlmeConfirm_Status ?c = LORAMAC_EVENT_INFO_STATUS_OK"
    "mlmeConfirm_DemodMargin ?c = 9" "mlmeConfirm_NbGateways ?c = 2"
    by (simp_all add: confirm_def)
  have ec: "mcpsIndication_Status ?echo = LORAMAC_EVENT_INFO_STATUS_OK"
    "mcpsIndication_RxData ?echo" "mcpsIndication_Port ?echo = 224"
    "mcpsIndication_Buffer ?echo 0 = 4"
    by (simp_all add: downlink_def)
  let ?s2 = "main_loop_step eu868_otaa env_ok latched_state"
  from session_main_loop_step [OF latched_state_fields(5), of eu868_otaa env_ok]
    latched_state_fields(1)
  have f2: "Running (ComplianceTest ?s2)" by simp
  from echo_effect(8) [OF f2 ec, of eu868_otaa env_ok]
  have f3: "Running (ComplianceTest (McpsIndication eu868_otaa env_ok ?echo ?s2))" .
  have o: "session_stays_open eu868_otaa ?evs latched_state"
    using latched_state_fields(1) f2 f3 by simp
  have u: "latch_undisturbed eu868_otaa ?evs latched_state"
    by (simp add: latched_state_more)
  show ?thesis
    using link_check_report [OF reachable_session_state session_state_fields(1) c(1,2),
              of ?evs env_ok _ env_ok]
      o u c reachable_session_state session_state_fields(1)
    by (simp add: latched_state_def)
qed

subsection \<open>C5: port-224 downlinks that are no command\<close>

text \<open>
  C5 says that a port-224 downlink which is no recognised command changes no field of the
  compliance state.  While the engine is active, \<open>McpsIndication\<close> counts every downlink
  and stores the first byte of every port-224 downlink as the step before it looks at it.
\<close>

theorem unknown_step_changes_compliance_state:
  "Running (ComplianceTest session_state)
   \<and> State (ComplianceTest session_state) = 1
   \<and> DownLinkCounter (ComplianceTest session_state) = 0
   \<and> State (ComplianceTest
        (McpsIndication eu868_otaa env_ok (downlink 224 [12]) session_state)) = 12
   \<and> DownLinkCounter (ComplianceTest
        (McpsIndication eu868_otaa env_ok (downlink 224 [12]) session_state)) = 1"
  by (simp add: session_state_fields McpsIndication_def compliance_downlink_def
        downlink_def Let_def)

text \<open>
  C5 as amended, for a port-224 downlink received without error.  While the engine is
  inactive and the downlink is not the enable command, nothing changes beyond what every
  downlink does: LED 2 is lit and its timer started, and a pending frame runs the transmit
  timer's handler.  While the engine is active and the first byte is above 11, the same
  holds except that the downlink counter is incremented and the first byte is stored as the
  step; port, confirmed mode, payload size and buffer stay as they are.
\<close>

theorem unrecognised_compliance_downlink:
  assumes "mcpsIndication_Status i = LORAMAC_EVENT_INFO_STATUS_OK" "mcpsIndication_RxData i"
    "mcpsIndication_Port i = 224"
  shows "(\<not> Running (ComplianceTest s)
          \<and> \<not> (mcpsIndication_BufferSize i = 4 \<and> mcpsIndication_Buffer i 0 = 1
                \<and> mcpsIndication_Buffer i 1 = 1 \<and> mcpsIndication_Buffer i 2 = 1
                \<and> mcpsIndication_Buffer i 3 = 1)
          \<longrightarrow> McpsIndication cfg e i s
                = emits [GpioWrite Led2 1, TimerStart Led2Timer]
                    (if mcpsIndication_FramePending i then OnTxNextPacketTimerEvent e s else s))
       \<and> (Running (ComplianceTest s) \<and> 11 < mcpsIndication_Buffer i 0
          \<longrightarrow> McpsIndication cfg e i s
                = emits [GpioWrite Led2 1, TimerStart Led2Timer]
                    ((if mcpsIndication_FramePending i then OnTxNextPacketTimerEvent e s else s)
                       \<lparr>ComplianceTest := (ComplianceTest s)
                          \<lparr>DownLinkCounter := DownLinkCounter (ComplianceTest s) + 1,
                           State := mcpsIndication_Buffer i 0\<rparr>\<rparr>))"
proof (intro conjI impI)
  assume a: "\<not> Running (ComplianceTest s)
          \<and> \<not> (mcpsIndication_BufferSize i = 4 \<and> mcpsIndication_Buffer i 0 = 1
                \<and> mcpsIndication_Buffer i 1 = 1 \<and> mcpsIndication_Buffer i 2 = 1
                \<and> mcpsIndication_Buffer i 3 = 1)"
  then have "compliance_downlink cfg e i t = t" if "ComplianceTest t = ComplianceTest s" for t
    using that by (auto simp add: compliance_downlink_def Let_def)
  then show "McpsIndication cfg e i s
                = emits [GpioWrite Led2 1, TimerStart Led2Timer]
                    (if mcpsIndication_FramePending i then OnTxNextPacketTimerEvent e s else s)"
    using assms a by (simp add: McpsIndication_def Let_def emit_def emits_def)
next
  assume a: "Running (ComplianceTest s) \<and> 11 < mcpsIndication_Buffer i 0"
  note ne = above_eleven [of "mcpsIndication_Buffer i 0"]
  have "compliance_downlink cfg e i t
          = t\<lparr>ComplianceTest := (ComplianceTest t)\<lparr>State := mcpsIndication_Buffer i 0\<rparr>\<rparr>"
    if "Running (ComplianceTest t)" for t
    using that a ne by (simp add: compliance_downlink_def Let_def)
  then show "McpsIndication cfg e i s
                = emits [GpioWrite Led2 1, TimerStart Led2Timer]
                    ((if mcpsIndication_FramePending i then OnTxNextPacketTimerEvent e s else s)
                       \<lparr>ComplianceTest := (ComplianceTest s)
                          \<lparr>DownLinkCounter := DownLinkCounter (ComplianceTest s) + 1,
                           State := mcpsIndication_Buffer i 0\<rparr>\<rparr>)"
    using assms a by (simp add: McpsIndication_def Let_def emit_def emits_def)
qed

theorem unrecognised_compliance_downlink_witness:
  "mcpsIndication_Status (downlink 224 [1, 1, 1]) = LORAMAC_EVENT_INFO_STATUS_OK
   \<and> mcpsIndication_RxData (downlink 224 [1, 1, 1])
   \<and> mcpsIndication_Port (downlink 224 [1, 1, 1]) = 224
   \<and> \<not> Running (ComplianceTest (init_globals eu868_otaa))
   \<and> mcpsIndication_BufferSize (downlink 224 [1, 1, 1]) \<noteq> 4
   \<and> McpsIndication eu868_otaa env_ok (downlink 224 [1, 1, 1]) (init_globals eu868_otaa)
       = emits [GpioWrite Led2 1, TimerStart Led2Timer] (init_globals eu868_otaa)
   \<and> Running (ComplianceTest session_state)
   \<and> 11 < mcpsIndication_Buffer (downlink 224 [12]) 0
   \<and> McpsIndication eu868_otaa env_ok (downlink 224 [12]) session_state
       = emits [GpioWrite Led2 1, TimerStart Led2Timer]
           (session_state\<lparr>ComplianceTest := (ComplianceTest session_state)
              \<lparr>DownLinkCounter := 1, State := 12\<rparr>\<rparr>)"
proof -
  have i: "mcpsIndication_Status (downlink 224 bs) = LORAMAC_EVENT_INFO_STATUS_OK"
    "mcpsIndication_RxData (downlink 224 bs)" "mcpsIndication_Port (downlink 224 bs) = 224"
    "\<not> mcpsIndication_FramePending (downlink 224 bs)" for bs
    by (simp_all add: downlink_def)
  have j: "mcpsIndication_BufferSize (downlink 224 [1, 1, 1]) \<noteq> 4"
    "mcpsIndication_Buffer (downlink 224 [12]) 0 = 12"
    by (simp_all add: downlink_def)
  have k: "\<not> Running (ComplianceTest (init_globals eu868_otaa))"
    by (simp add: init_globals_def)
  show ?thesis
    using unrecognised_compliance_downlink [OF i(1-3), of "init_globals eu868_otaa" "[1, 1, 1]" eu868_otaa env_ok]
      unrecognised_compliance_downlink [OF i(1-3), of session_state "[12]" eu868_otaa env_ok]
      i j k session_state_fields
    by simp
qed

subsection \<open>C6: the counter echo of step 1\<close>

text \<open>
  C6: with the compliance engine active at step 1 and no link-check result latched, the
  prepared payload is the two bytes \<open>[c >> 8, c & 0xFF]\<close> of the downlink counter \<open>c\<close>.
  Every 16-bit value \<open>c\<close> is the counter of such a reachable state (lemma
  \<open>every_counter_value_occurs\<close>).
\<close>

theorem counter_echo_payload:
  assumes "reachable cfg s" "Running (ComplianceTest s)" "State (ComplianceTest s) = 1"
    "\<not> LinkCheck (ComplianceTest s)" "DownLinkCounter (ComplianceTest s) = c"
  shows "payload (PrepareTxFrame e (AppPort s) s) = [ucast (drop_bit 8 c), ucast (c AND 0xFF)]"
proof -
  have "app_inv s" using assms(1) by (rule reachable_inv)
  then have p: "AppPort s = 224" and l: "2 \<le> length (AppDataBuffer s)"
    using assms(2) by (simp_all add: app_inv_def LORAWAN_APP_DATA_MAX_SIZE_def)
  have "(ucast (c AND mask 8) :: 8 word) = ucast c"
    by (rule bit_word_eqI) (auto simp add: bit_simps)
  then have "ucast (c AND 0xFF) = (ucast c :: 8 word)"
    by (simp add: mask_eq_exp_minus_1)
  then show ?thesis
    using assms p l by (simp add: PrepareTxFrame_def payload_def Let_def take2_update)
qed

theorem counter_echo_payload_witness:
  "reachable eu868_otaa counted_state \<and> Running (ComplianceTest counted_state)
   \<and> State (ComplianceTest counted_state) = 1 \<and> \<not> LinkCheck (ComplianceTest counted_state)
   \<and> DownLinkCounter (ComplianceTest counted_state) = 1
   \<and> payload (PrepareTxFrame env_ok (AppPort counted_state) counted_state) = [0, 1]"
  using counter_echo_payload [OF reachable_counted_state, of 1 env_ok] reachable_counted_state
  by (simp add: counted_state_fields)

subsection \<open>C7: the cycle delay\<close>

text \<open>
  C7: the CYCLE step sets the next-transmit delay to exactly 5000 ms while a compliance
  session is active; otherwise, for every value that
  \<open>randr( -APP_TX_DUTYCYCLE_RND, APP_TX_DUTYCYCLE_RND )\<close> draws, the delay lies between
  30000 - 5000 and 30000 + 5000 ms, bounds included.  The step arms the
  transmit timer with this delay and goes to SLEEP.
\<close>

theorem cycle_delay:
  assumes "DeviceState s = DEVICE_STATE_CYCLE"
  shows "(Running (ComplianceTest s) \<longrightarrow> TxDutyCycleTime (main_loop_step cfg e s) = 5000)
       \<and> (\<not> Running (ComplianceTest s)
          \<and> randr_returns (- sint APP_TX_DUTYCYCLE_RND) (sint APP_TX_DUTYCYCLE_RND) (randrDraw e)
          \<longrightarrow>
            30000 - 5000 \<le> uint (TxDutyCycleTime (main_loop_step cfg e s))
            \<and> uint (TxDutyCycleTime (main_loop_step cfg e s)) \<le> 30000 + 5000)
       \<and> Effects (main_loop_step cfg e s) =
            Effects s @ [TimerSetValue TxNextPacketTimer (TxDutyCycleTime (main_loop_step cfg e s)),
                         TimerStart TxNextPacketTimer]
       \<and> DeviceState (main_loop_step cfg e s) = DEVICE_STATE_SLEEP"
  using assms jitter_bounds [of "randrDraw e"]
  by (simp add: main_loop_step_def Let_def randr_returns_def APP_TX_DUTYCYCLE_def
        APP_TX_DUTYCYCLE_RND_def)

theorem cycle_delay_witness:
  "DeviceState cycle_state = DEVICE_STATE_CYCLE
   \<and> \<not> Running (ComplianceTest cycle_state)
   \<and> randr_returns (- sint APP_TX_DUTYCYCLE_RND) (sint APP_TX_DUTYCYCLE_RND) (randrDraw env_ok)
   \<and> uint (TxDutyCycleTime (main_loop_step eu868_otaa env_ok cycle_state)) = 25000
   \<and> DeviceState (session_state\<lparr>DeviceState := DEVICE_STATE_CYCLE\<rparr>) = DEVICE_STATE_CYCLE
   \<and> Running (ComplianceTest (session_state\<lparr>DeviceState := DEVICE_STATE_CYCLE\<rparr>))
   \<and> TxDutyCycleTime
        (main_loop_step eu868_otaa env_ok (session_state\<lparr>DeviceState := DEVICE_STATE_CYCLE\<rparr>))
       = 5000"
proof -
  have a: "DeviceState cycle_state = DEVICE_STATE_CYCLE" "\<not> Running (ComplianceTest cycle_state)"
    by (simp_all add: cycle_state_def init_globals_def)
  have r: "randr_returns (- sint APP_TX_DUTYCYCLE_RND) (sint APP_TX_DUTYCYCLE_RND)
             (randrDraw env_ok)"
    by (simp add: randr_returns_def env_ok_def APP_TX_DUTYCYCLE_RND_def)
  have v: "uint (TxDutyCycleTime (main_loop_step eu868_otaa env_ok cycle_state)) = 25000"
    using a by (simp add: main_loop_step_def Let_def APP_TX_DUTYCYCLE_def env_ok_def)
  show ?thesis
    using cycle_delay [of cycle_state eu868_otaa env_ok]
      cycle_delay [of "session_state\<lparr>DeviceState := DEVICE_STATE_CYCLE\<rparr>" eu868_otaa env_ok]
      a r v
    by (simp add: session_state_fields)
qed

subsection \<open>C8: joining\<close>

text \<open>
  C8: \<open>JoinNetwork\<close> submits one join request; if the MAC engine accepts it the device
  state becomes SLEEP, after any rejection (a duty-cycle restriction is no special case for
  the state) it becomes CYCLE.  A join confirmation that reports a failure calls
  \<open>JoinNetwork\<close> at once.
\<close>

theorem join_outcomes:
  "JoinNetwork status s =
     (emit (LoRaMacMlmeRequest (Req_Join LORAWAN_DEFAULT_DATARATE)) s)
       \<lparr>DeviceState := (if status = LORAMAC_STATUS_OK then DEVICE_STATE_SLEEP
                        else DEVICE_STATE_CYCLE)\<rparr>
   \<and> (mlmeConfirm_MlmeRequest c = MLME_JOIN
        \<and> mlmeConfirm_Status c \<noteq> LORAMAC_EVENT_INFO_STATUS_OK
      \<longrightarrow> MlmeConfirm e c s = JoinNetwork (mlmeStatus e) s)"
  by (simp add: JoinNetwork_def MlmeConfirm_def)

theorem join_outcomes_witness:
  "mlmeConfirm_MlmeRequest (confirm MLME_JOIN LORAMAC_EVENT_INFO_STATUS_JOIN_FAIL 0 0) = MLME_JOIN
   \<and> mlmeConfirm_Status (confirm MLME_JOIN LORAMAC_EVENT_INFO_STATUS_JOIN_FAIL 0 0)
        \<noteq> LORAMAC_EVENT_INFO_STATUS_OK
   \<and> MlmeConfirm env_ok (confirm MLME_JOIN LORAMAC_EVENT_INFO_STATUS_JOIN_FAIL 0 0)
        (init_globals eu868_otaa)
      = JoinNetwork LORAMAC_STATUS_OK (init_globals eu868_otaa)
   \<and> DeviceState (JoinNetwork LORAMAC_STATUS_OK (init_globals eu868_otaa)) = DEVICE_STATE_SLEEP
   \<and> DeviceState (JoinNetwork LORAMAC_STATUS_DUTYCYCLE_RESTRICTED (init_globals eu868_otaa))
        = DEVICE_STATE_CYCLE"
  using join_outcomes [of LORAMAC_STATUS_OK "init_globals eu868_otaa"
              "confirm MLME_JOIN LORAMAC_EVENT_INFO_STATUS_JOIN_FAIL 0 0" env_ok]
        join_outcomes [of LORAMAC_STATUS_DUTYCYCLE_RESTRICTED "init_globals eu868_otaa"
              "confirm MLME_JOIN LORAMAC_EVENT_INFO_STATUS_JOIN_FAIL 0 0" env_ok]
  by (simp add: confirm_def env_ok_def)

subsection \<open>C9: the ping-slot-info confirmation\<close>

text \<open>
  C9: a ping-slot-info confirmation with status OK asks the MAC engine to set the device
  class to Class B, sets \<open>WakeUpState\<close> and \<open>DeviceState\<close> to SEND and \<open>NextTx\<close> to
  true, and changes nothing else; with any other status it sets \<open>WakeUpState\<close> to
  REQ_PINGSLOT_ACK and changes nothing else.
\<close>

theorem ping_slot_info_confirm:
  assumes "mlmeConfirm_MlmeRequest c = MLME_PING_SLOT_INFO"
  shows "MlmeConfirm e c s =
     (if mlmeConfirm_Status c = LORAMAC_EVENT_INFO_STATUS_OK
      then s\<lparr>WakeUpState := DEVICE_STATE_SEND, DeviceState := DEVICE_STATE_SEND, NextTx := True,
             Effects := Effects s @ [LoRaMacMibSetRequestConfirm (MIB_DEVICE_CLASS CLASS_B)]\<rparr>
      else s\<lparr>WakeUpState := DEVICE_STATE_REQ_PINGSLOT_ACK\<rparr>)"
  using assms by (simp add: MlmeConfirm_def emit_def)

theorem ping_slot_info_confirm_witness:
  "mlmeConfirm_MlmeRequest (confirm MLME_PING_SLOT_INFO LORAMAC_EVENT_INFO_STATUS_OK 0 0)
     = MLME_PING_SLOT_INFO
   \<and> MlmeConfirm env_ok (confirm MLME_PING_SLOT_INFO LORAMAC_EVENT_INFO_STATUS_OK 0 0)
        (init_globals eu868_otaa)
      = (init_globals eu868_otaa)
          \<lparr>WakeUpState := DEVICE_STATE_SEND, DeviceState := DEVICE_STATE_SEND, NextTx := True,
           Effects := [LoRaMacMibSetRequestConfirm (MIB_DEVICE_CLASS CLASS_B)]\<rparr>
   \<and> mlmeConfirm_MlmeRequest (confirm MLME_PING_SLOT_INFO LORAMAC_EVENT_INFO_STATUS_RX2_TIMEOUT 0 0)
     = MLME_PING_SLOT_INFO
   \<and> MlmeConfirm env_ok (confirm MLME_PING_SLOT_INFO LORAMAC_EVENT_INFO_STATUS_RX2_TIMEOUT 0 0)
        (init_globals eu868_otaa)
      = (init_globals eu868_otaa)\<lparr>WakeUpState := DEVICE_STATE_REQ_PINGSLOT_ACK\<rparr>"
  using ping_slot_info_confirm [of "confirm MLME_PING_SLOT_INFO LORAMAC_EVENT_INFO_STATUS_OK 0 0" env_ok
              "init_globals eu868_otaa"]
        ping_slot_info_confirm [of "confirm MLME_PING_SLOT_INFO LORAMAC_EVENT_INFO_STATUS_RX2_TIMEOUT 0 0" env_ok
              "init_globals eu868_otaa"]
  by (simp add: confirm_def init_globals_def)

subsection \<open>C10: the device-time and beacon-timing confirmations\<close>

text \<open>
  C10: a device-time or beacon-timing confirmation sets \<open>WakeUpState\<close> to SEND,
  \<open>DeviceState\<close> to BEACON_ACQUISITION and \<open>NextTx\<close> to true, whatever status it
  reports.
\<close>

theorem time_confirm_ignores_status:
  assumes "mlmeConfirm_MlmeRequest c = MLME_DEVICE_TIME
           \<or> mlmeConfirm_MlmeRequest c = MLME_BEACON_TIMING"
  shows "MlmeConfirm e c s =
     s\<lparr>WakeUpState := DEVICE_STATE_SEND, DeviceState := DEVICE_STATE_BEACON_ACQUISITION,
       NextTx := True\<rparr>"
  using assms by (auto simp add: MlmeConfirm_def)

theorem time_confirm_ignores_status_witness:
  "(mlmeConfirm_MlmeRequest (confirm MLME_DEVICE_TIME LORAMAC_EVENT_INFO_STATUS_ERROR 0 0)
      = MLME_DEVICE_TIME
    \<or> mlmeConfirm_MlmeRequest (confirm MLME_DEVICE_TIME LORAMAC_EVENT_INFO_STATUS_ERROR 0 0)
      = MLME_BEACON_TIMING)
   \<and> MlmeConfirm env_ok (confirm MLME_DEVICE_TIME LORAMAC_EVENT_INFO_STATUS_ERROR 0 0)
        ((init_globals eu868_otaa)\<lparr>NextTx := False\<rparr>)
      = (init_globals eu868_otaa)
          \<lparr>NextTx := False, WakeUpState := DEVICE_STATE_SEND,
           DeviceState := DEVICE_STATE_BEACON_ACQUISITION, NextTx := True\<rparr>"
  using time_confirm_ignores_status [of "confirm MLME_DEVICE_TIME LORAMAC_EVENT_INFO_STATUS_ERROR 0 0" env_ok
               "(init_globals eu868_otaa)\<lparr>NextTx := False\<rparr>"]
  by (simp add: confirm_def)

end
